theory Spec2Isabelle
  imports Complex_Main
begin

section \<open>Values of the runtime\<close>

text \<open>
  Strings of the program are modelled as \<^typ>\<open>string\<close>: one \<^typ>\<open>char\<close> per code unit,
  which covers the code units U+0000 .. U+00FF. Step counts and minute totals are
  natural numbers and integers; the runtime computes them as doubles, which agree with
  the integers as long as every intermediate value stays below \<open>2 ^ 53\<close>. A property
  that is \<open>undefined\<close> (or \<open>null\<close>) in the program is \<open>None\<close> here.
\<close>

definition isDigit :: "char \<Rightarrow> bool" where
  "isDigit c = (c \<in> set ''0123456789'')"

text \<open>The class \<open>\s\<close> of regular expressions, and the characters \<open>trim\<close> removes,
  among the code units below 256: TAB, LF, VT, FF, CR, space and U+00A0.\<close>

definition isSpace :: "char \<Rightarrow> bool" where
  "isSpace c = (c \<in> {CHR 0x09, CHR 0x0A, CHR 0x0B, CHR 0x0C, CHR 0x0D, CHR '' '', CHR 0xA0})"

definition digitVal :: "char \<Rightarrow> nat" where
  "digitVal c = of_char c - 48"

text \<open>\<open>parseInt\<close> on a string of decimal digits.\<close>

definition parseDigits :: "string \<Rightarrow> nat" where
  "parseDigits ds = foldl (\<lambda>acc c. 10 * acc + digitVal c) 0 ds"

text \<open>The decimal rendering of a number in a template literal.\<close>

definition digitChar :: "nat \<Rightarrow> char" where
  "digitChar d = char_of (48 + d)"

fun showNat :: "nat \<Rightarrow> string" where
  "showNat n = (if n < 10 then [digitChar n] else showNat (n div 10) @ [digitChar (n mod 10)])"

declare showNat.simps [simp del]

section \<open>utils/metricsExtractor.js: the metrics records\<close>

record stepTime =
  step :: string
  stepName :: string
  time :: string

record suggestion =
  title :: string
  description :: string
  timeSaved :: string

text \<open>The \<open>optimized\<close> sub-object that \<open>mergeMetrics\<close> attaches.\<close>

record optimizedPart =
  optTotalSteps :: nat
  optTotalTime :: string
  optSuggestions :: "suggestion list"
  timeSavingsPercent :: int

record metrics =
  totalSteps :: "nat option"
  totalTime :: "string option"
  timeEstimates :: "string list option"
  stepTimes :: "stepTime list option"
  optimized :: "optimizedPart option"

text \<open>The third argument of \<open>mergeMetrics\<close>: only these properties are read.\<close>

record optimizationMetrics =
  omTotalSteps :: "nat option"
  omTotalTime :: "string option"
  omSuggestions :: "suggestion list option"

text \<open>\<open>defaultMetrics()\<close>\<close>

definition defaultMetrics :: metrics where
  "defaultMetrics =
     \<lparr>totalSteps = Some 0, totalTime = Some ''Unknown'', timeEstimates = Some [],
      stepTimes = Some [], optimized = None\<rparr>"

text \<open>The object \<open>{ ...workflowMetrics }\<close> of a missing argument has no property.\<close>

definition noMetrics :: metrics where
  "noMetrics =
     \<lparr>totalSteps = None, totalTime = None, timeEstimates = None, stepTimes = None,
      optimized = None\<rparr>"

section \<open>Doubles\<close>

text \<open>
  The results of the program that are not integers come from a division and from
  \<open>parseFloat\<close>. They are modelled as the runtime computes them, in binary floating
  point with 53 significant bits and rounding to nearest, ties to even; a double is a
  pair \<open>(m, s)\<close> standing for \<open>m / 2 ^ s\<close>. Overflow and subnormal numbers are outside
  the model.
\<close>

fun bitLength :: "nat \<Rightarrow> nat" where
  "bitLength n = (if n = 0 then 0 else Suc (bitLength (n div 2)))"

declare bitLength.simps [simp del]

text \<open>A natural number rounded to 53 significant bits.\<close>

definition roundTo53 :: "nat \<Rightarrow> nat" where
  "roundTo53 p =
     (let k = bitLength p - 53; q = p div 2 ^ k; r = p mod 2 ^ k
      in (if 2 * r < 2 ^ k \<or> (2 * r = 2 ^ k \<and> even q) then q else q + 1) * 2 ^ k)"

type_synonym double = "nat \<times> nat"

definition dval :: "double \<Rightarrow> rat" where
  "dval d = of_nat (fst d) / 2 ^ snd d"

text \<open>The double nearest to \<open>a / b\<close>: the quotient is taken with more than 53 bits and a
  sticky bit for the remainder, then rounded.\<close>

definition quotToDouble :: "nat \<Rightarrow> nat \<Rightarrow> double" where
  "quotToDouble a b =
     (let s = 55 + bitLength b; q = (a * 2 ^ s) div b;
          sticky = (if (a * 2 ^ s) mod b = 0 then 0 else 1)
      in (roundTo53 (2 * q + sticky), s + 1))"

definition dmul :: "double \<Rightarrow> nat \<Rightarrow> double" where
  "dmul d n = (roundTo53 (fst d * n), snd d)"

definition dadd :: "double \<Rightarrow> double \<Rightarrow> double" where
  "dadd x y =
     (let s = max (snd x) (snd y)
      in (roundTo53 (fst x * 2 ^ (s - snd x) + fst y * 2 ^ (s - snd y)), s))"

text \<open>\<open>Math.floor(n * 0.7)\<close>: the literal \<open>0.7\<close> is the double
  \<open>3152519739159347 / 2 ^ 52\<close>.\<close>

definition floorTimes07 :: "nat \<Rightarrow> nat" where
  "floorTimes07 n = roundTo53 (n * 3152519739159347) div 2 ^ 52"

text \<open>\<open>Math.round(((orig - opt) / orig) * 100)\<close> for minute counts with \<open>0 < orig\<close>:
  \<open>Math.round x\<close> is the floor of \<open>x + 1/2\<close>.\<close>

definition roundPercent :: "nat \<Rightarrow> nat \<Rightarrow> int" where
  "roundPercent orig opt =
     (let d = int orig - int opt;
          q = quotToDouble (nat \<bar>d\<bar>) orig;
          p = dmul q 100
      in (2 * sgn d * int (fst p) + 2 ^ snd p) div 2 ^ (snd p + 1))"

section \<open>utils/metricsExtractor.js: mergeMetrics\<close>

text \<open>
  The three regular expressions of the module's \<open>parseTimeToMinutes\<close>,
  \<open>/(\d+)\s*(?:hour|hr|h)s?/i\<close>, \<open>/(\d+)\s*(?:minute|min|m)s?/i\<close> and
  \<open>/(\d+)\s*(?:day|d)s?/i\<close>, each end in an alternative that is one letter, so each
  matches where a run of digits and any white space are followed by that letter, in
  either case. \<open>matchIntUnit\<close> is the attempt at the front of the text (group 1 is the
  run of digits), \<open>firstIntUnit\<close> the first match of \<open>String.match\<close>.
\<close>

definition isLetter :: "char \<Rightarrow> char \<Rightarrow> char \<Rightarrow> bool" where
  "isLetter lower upper c = (c = lower \<or> c = upper)"

definition matchIntUnit :: "(char \<Rightarrow> bool) \<Rightarrow> string \<Rightarrow> string option" where
  "matchIntUnit unit s =
     (case dropWhile isSpace (dropWhile isDigit s) of
        [] \<Rightarrow> None
      | c # _ \<Rightarrow> if takeWhile isDigit s \<noteq> [] \<and> unit c then Some (takeWhile isDigit s) else None)"

fun firstIntUnit :: "(char \<Rightarrow> bool) \<Rightarrow> string \<Rightarrow> string option" where
  "firstIntUnit unit [] = None"
| "firstIntUnit unit (c # cs) =
     (case matchIntUnit unit (c # cs) of
        Some ds \<Rightarrow> Some ds
      | None \<Rightarrow> firstIntUnit unit cs)"

text \<open>The module's own \<open>parseTimeToMinutes\<close> (integers only).\<close>

definition metricsExtractor_parseTimeToMinutes :: "string option \<Rightarrow> nat option" where
  "metricsExtractor_parseTimeToMinutes timeString =
     (case timeString of
        None \<Rightarrow> None
      | Some ts \<Rightarrow>
          if ts = [] then None
          else
            let hours = (case firstIntUnit (isLetter CHR ''h'' CHR ''H'') ts of
                           Some ds \<Rightarrow> parseDigits ds * 60 | None \<Rightarrow> 0);
                minutes = (case firstIntUnit (isLetter CHR ''m'' CHR ''M'') ts of
                           Some ds \<Rightarrow> parseDigits ds | None \<Rightarrow> 0);
                days = (case firstIntUnit (isLetter CHR ''d'' CHR ''D'') ts of
                           Some ds \<Rightarrow> parseDigits ds * 8 * 60 | None \<Rightarrow> 0);
                totalMinutes = hours + minutes + days
            in if 0 < totalMinutes then Some totalMinutes else None)"

text \<open>\<open>calculateTimeSavingsPercent\<close>: \<open>None\<close> is the \<open>null\<close> it returns.\<close>

definition calculateTimeSavingsPercent :: "string option \<Rightarrow> string option \<Rightarrow> int option" where
  "calculateTimeSavingsPercent originalTime optimizedTime =
     (case (metricsExtractor_parseTimeToMinutes originalTime,
            metricsExtractor_parseTimeToMinutes optimizedTime) of
        (Some originalMinutes, Some optimizedMinutes) \<Rightarrow>
          if originalMinutes \<noteq> 0 \<and> optimizedMinutes \<noteq> 0 \<and> 0 < originalMinutes
          then Some (roundPercent originalMinutes optimizedMinutes)
          else None
      | _ \<Rightarrow> None)"

text \<open>The operator \<open>||\<close> on the values the merge applies it to: \<open>undefined\<close>, \<open>null\<close>,
  \<open>0\<close> and the empty string are falsy, an array never is.\<close>

definition orNat :: "nat option \<Rightarrow> nat \<Rightarrow> nat" where
  "orNat v d = (case v of None \<Rightarrow> d | Some n \<Rightarrow> if n = 0 then d else n)"

definition orString :: "string option \<Rightarrow> string \<Rightarrow> string" where
  "orString v d = (case v of None \<Rightarrow> d | Some s \<Rightarrow> if s = [] then d else s)"

definition orInt :: "int option \<Rightarrow> int \<Rightarrow> int" where
  "orInt v d = (case v of None \<Rightarrow> d | Some n \<Rightarrow> if n = 0 then d else n)"

definition orList :: "'a list option \<Rightarrow> 'a list \<Rightarrow> 'a list" where
  "orList v d = (case v of None \<Rightarrow> d | Some xs \<Rightarrow> xs)"

text \<open>\<open>!v || v.length === 0\<close> on an optional array.\<close>

definition missingOrEmpty :: "'a list option \<Rightarrow> bool" where
  "missingOrEmpty v = (case v of None \<Rightarrow> True | Some xs \<Rightarrow> xs = [])"

text \<open>\<open>documentMetrics?.f\<close>\<close>

definition optField :: "('r \<Rightarrow> 'a option) \<Rightarrow> 'r option \<Rightarrow> 'a option" where
  "optField f r = (case r of None \<Rightarrow> None | Some x \<Rightarrow> f x)"

text \<open>\<open>{ ...workflowMetrics }\<close>\<close>

definition baseMetrics :: "metrics option \<Rightarrow> metrics" where
  "baseMetrics w = (case w of None \<Rightarrow> noMetrics | Some x \<Rightarrow> x)"

definition mergeMetrics ::
  "metrics option \<Rightarrow> metrics option \<Rightarrow> optimizationMetrics option \<Rightarrow> metrics" where
  "mergeMetrics workflowMetrics documentMetrics optimizationMetrics =
     (let m0 = baseMetrics workflowMetrics;
          m1 = (if orNat (totalSteps m0) 0 = 0
                then m0\<lparr>totalSteps := Some (orNat (optField totalSteps documentMetrics) 0)\<rparr>
                else m0);
          m2 = (if totalTime m1 = Some ''Unknown''
                then m1\<lparr>totalTime := Some (orString (optField totalTime documentMetrics) ''Unknown'')\<rparr>
                else m1);
          m3 = (if missingOrEmpty (stepTimes m2) \<and>
                   \<not> missingOrEmpty (optField stepTimes documentMetrics)
                then m2\<lparr>stepTimes := optField stepTimes documentMetrics\<rparr>
                else m2)
      in case optimizationMetrics of
           None \<Rightarrow> m3
         | Some om \<Rightarrow>
             m3\<lparr>optimized := Some
               \<lparr>optTotalSteps = orNat (omTotalSteps om) (floorTimes07 (orNat (totalSteps m3) 0)),
                optTotalTime = orString (omTotalTime om) ''Unknown'',
                optSuggestions = orList (omSuggestions om) [],
                timeSavingsPercent =
                  orInt (calculateTimeSavingsPercent (totalTime m3) (omTotalTime om)) 30\<rparr>\<rparr>)"

subsection \<open>Example metrics\<close>

text \<open>A diagram whose two steps are labelled but only the first carries a duration: two
  steps counted, one step time found. A document with three steps. A diagram with one
  step counted and two step times.\<close>

definition twoStepDiagram :: metrics where
  "twoStepDiagram =
     \<lparr>totalSteps = Some 2, totalTime = Some ''30 minutes'', timeEstimates = Some [''30 min''],
      stepTimes = Some [\<lparr>step = ''1'', stepName = ''Step 1'', time = ''30 min''\<rparr>],
      optimized = None\<rparr>"

definition threeStepDocument :: metrics where
  "threeStepDocument =
     \<lparr>totalSteps = Some 3, totalTime = Some ''2 hours'', timeEstimates = None,
      stepTimes = Some [\<lparr>step = ''1'', stepName = ''Collect'', time = ''1 hour''\<rparr>,
                        \<lparr>step = ''2'', stepName = ''Review'', time = ''30 minutes''\<rparr>,
                        \<lparr>step = ''3'', stepName = ''Approve'', time = ''30 minutes''\<rparr>],
      optimized = None\<rparr>"

definition oneStepDiagram :: metrics where
  "oneStepDiagram =
     \<lparr>totalSteps = Some 1, totalTime = Some ''1 hour'', timeEstimates = Some [''1 hour''],
      stepTimes = Some [\<lparr>step = ''1'', stepName = ''Step 1'', time = ''1 hour''\<rparr>,
                        \<lparr>step = ''2'', stepName = ''Archive'', time = ''Unknown''\<rparr>],
      optimized = None\<rparr>"

definition emptyDiagram :: metrics where
  "emptyDiagram =
     \<lparr>totalSteps = Some 0, totalTime = Some ''Unknown'', timeEstimates = Some [],
      stepTimes = Some [], optimized = None\<rparr>"

text \<open>An optimization result whose total time equals the original one.\<close>

definition sameTimeOptimization :: optimizationMetrics where
  "sameTimeOptimization =
     \<lparr>omTotalSteps = Some 1, omTotalTime = Some ''1 hour'', omSuggestions = Some []\<rparr>"

section \<open>utils/optimizationUtils.js: parseTimeToMinutes\<close>

text \<open>
  The patterns \<open>/(\d+(?:\.\d+)?)\s*(hour|hr|h)s?/i\<close>, \<open>/(\d+(?:\.\d+)?)\s*(minute|min|m)s?/i\<close>
  and \<open>/(\d+(?:\.\d+)?)\s*(day|d)s?/i\<close>. Group 1 is a run of digits with an optional
  fraction; it is returned as the digits before and after the point. The attempt with
  the fraction comes first and the attempt without it second, as the greedy \<open>?\<close> tries
  them. (Giving back digits of a run never helps: the next character is then a digit.)
\<close>

definition unitFollows :: "(char \<Rightarrow> bool) \<Rightarrow> string \<Rightarrow> bool" where
  "unitFollows unit s = (case dropWhile isSpace s of [] \<Rightarrow> False | c # _ \<Rightarrow> unit c)"

text \<open>The fraction \<open>(?:\.\d+)\<close> at the front of a text, and the text behind it.\<close>

definition fractionAt :: "string \<Rightarrow> (string \<times> string) option" where
  "fractionAt s =
     (case s of
        [] \<Rightarrow> None
      | c # t \<Rightarrow> if c = CHR ''.'' \<and> takeWhile isDigit t \<noteq> []
                 then Some (takeWhile isDigit t, dropWhile isDigit t) else None)"

definition matchDecUnit :: "(char \<Rightarrow> bool) \<Rightarrow> string \<Rightarrow> (string \<times> string) option" where
  "matchDecUnit unit s =
     (let ds = takeWhile isDigit s; rest = dropWhile isDigit s
      in if ds = [] then None
         else case fractionAt rest of
                Some (fr, rest') \<Rightarrow>
                  if unitFollows unit rest' then Some (ds, fr)
                  else if unitFollows unit rest then Some (ds, []) else None
              | None \<Rightarrow> if unitFollows unit rest then Some (ds, []) else None)"

fun firstDecUnit :: "(char \<Rightarrow> bool) \<Rightarrow> string \<Rightarrow> (string \<times> string) option" where
  "firstDecUnit unit [] = None"
| "firstDecUnit unit (c # cs) =
     (case matchDecUnit unit (c # cs) of
        Some m \<Rightarrow> Some m
      | None \<Rightarrow> firstDecUnit unit cs)"

text \<open>\<open>/(\d+(?:\.\d+)?)/\<close>: the first number of the text.\<close>

definition matchDec :: "string \<Rightarrow> (string \<times> string) option" where
  "matchDec s =
     (let ds = takeWhile isDigit s; rest = dropWhile isDigit s
      in if ds = [] then None
         else case fractionAt rest of
                Some (fr, rest') \<Rightarrow> Some (ds, fr)
              | None \<Rightarrow> Some (ds, []))"

fun firstDec :: "string \<Rightarrow> (string \<times> string) option" where
  "firstDec [] = None"
| "firstDec (c # cs) = (case matchDec (c # cs) of Some m \<Rightarrow> Some m | None \<Rightarrow> firstDec cs)"

text \<open>\<open>parseFloat\<close> on the text of group 1: the double nearest to the decimal.\<close>

definition parseFloat :: "string \<times> string \<Rightarrow> double" where
  "parseFloat m = quotToDouble (parseDigits (fst m @ snd m)) (10 ^ length (snd m))"

definition dzero :: double where
  "dzero = (0, 0)"

text \<open>The running total \<open>totalMinutes\<close> at the \<open>return\<close> statement.\<close>

definition totalMinutesOf :: "string \<Rightarrow> double" where
  "totalMinutesOf timeString =
     (let t0 = dzero;
          t1 = (case firstDecUnit (isLetter CHR ''h'' CHR ''H'') timeString of
                  Some m \<Rightarrow> dadd t0 (dmul (parseFloat m) 60) | None \<Rightarrow> t0);
          t2 = (case firstDecUnit (isLetter CHR ''m'' CHR ''M'') timeString of
                  Some m \<Rightarrow> dadd t1 (parseFloat m) | None \<Rightarrow> t1);
          t3 = (case firstDecUnit (isLetter CHR ''d'' CHR ''D'') timeString of
                  Some m \<Rightarrow> dadd t2 (dmul (dmul (parseFloat m) 8) 60) | None \<Rightarrow> t2)
      in if fst t3 = 0
         then (case firstDec timeString of Some m \<Rightarrow> parseFloat m | None \<Rightarrow> t3)
         else t3)"

text \<open>The argument is a string, \<open>null\<close> or \<open>undefined\<close>; the result is the value of the
  double, or \<open>None\<close> for \<open>null\<close>.\<close>

definition parseTimeToMinutes :: "string option \<Rightarrow> rat option" where
  "parseTimeToMinutes timeString =
     (case timeString of
        None \<Rightarrow> None
      | Some ts \<Rightarrow>
          if ts = [] \<or> ts = ''Unknown'' then None
          else if 0 < dval (totalMinutesOf ts) then Some (dval (totalMinutesOf ts)) else None)"

section \<open>utils/metricsExtractor.js: extractWorkflowMetrics\<close>

subsection \<open>Strings and global matches\<close>

text \<open>\<open>String.prototype.trim\<close>, \<open>toLowerCase\<close> (on the code units below 256: the letters
  A to Z and the accented capitals U+00C0 .. U+00DE without the sign U+00D7) and
  \<open>includes\<close> (here \<open>strIncludes\<close>).\<close>

definition trim :: "string \<Rightarrow> string" where
  "trim s = rev (dropWhile isSpace (rev (dropWhile isSpace s)))"

definition lowerChar :: "char \<Rightarrow> char" where
  "lowerChar c =
     (let n = (of_char c :: nat)
      in if (65 \<le> n \<and> n \<le> 90) \<or> (192 \<le> n \<and> n \<le> 222 \<and> n \<noteq> 215)
         then char_of (n + 32) else c)"

definition toLowerCase :: "string \<Rightarrow> string" where
  "toLowerCase s = map lowerChar s"

definition startsWith :: "string \<Rightarrow> string \<Rightarrow> bool" where
  "startsWith p s = (take (length p) s = p)"

fun strIncludes :: "string \<Rightarrow> string \<Rightarrow> bool" where
  "strIncludes p [] = (p = [])"
| "strIncludes p (c # cs) = (startsWith p (c # cs) \<or> strIncludes p cs)"

text \<open>
  Under the flag \<open>i\<close> a letter of a pattern matches itself and its capital. The patterns
  below are written in lower case; \<open>startsWithCI\<close> is the match of such a word at the
  front of a text, \<open>firstAlt\<close> the first alternative of a group \<open>(a|b|...)\<close> that matches
  there, and \<open>regexTest\<close> the test \<open>text.match(/a|b|.../i)\<close> for a match anywhere.
\<close>

definition lowerAscii :: "char \<Rightarrow> char" where
  "lowerAscii c =
     (let n = (of_char c :: nat) in if 65 \<le> n \<and> n \<le> 90 then char_of (n + 32) else c)"

definition startsWithCI :: "string \<Rightarrow> string \<Rightarrow> bool" where
  "startsWithCI p s = (map lowerAscii (take (length p) s) = p)"

definition firstAlt :: "string list \<Rightarrow> string \<Rightarrow> string option" where
  "firstAlt alts s = find (\<lambda>p. startsWithCI p s) alts"

definition regexTest :: "string list \<Rightarrow> string \<Rightarrow> bool" where
  "regexTest alts s = list_ex (\<lambda>p. strIncludes p (map lowerAscii s)) alts"

text \<open>
  \<open>text.match(/.../g)\<close>: the matches from left to right, each search starting where the
  match before ended. \<open>m\<close> is the attempt at the front of a text and gives the match
  and the text behind it. (A match that consumed nothing would make the search advance
  by one character; the patterns here always consume.)
\<close>

function scanAll :: "(string \<Rightarrow> ('a \<times> string) option) \<Rightarrow> string \<Rightarrow> 'a list" where
  "scanAll m [] = []"
| "scanAll m (c # cs) =
     (case m (c # cs) of
        None \<Rightarrow> scanAll m cs
      | Some (x, rest) \<Rightarrow>
          if length rest \<le> length cs then x # scanAll m rest else x # scanAll m cs)"
  by pat_completeness auto
termination
  by (relation "measure (\<lambda>(m, s). length s)") auto

subsection \<open>Counting the steps\<close>

text \<open>\<open>/\[\s*(?:Step\s+\d+|Process\s+\d+|Activity\s+\d+)|"(?:Step|Process|Activity)\s+\d+/gi\<close>\<close>

text \<open>\<open>(?:Step|Process|Activity)\s+\d+\<close> at the front of a text: the text behind it.\<close>

definition matchLabel :: "string \<Rightarrow> string option" where
  "matchLabel s =
     (case firstAlt [''step'', ''process'', ''activity''] s of
        None \<Rightarrow> None
      | Some w \<Rightarrow>
          let r = drop (length w) s; r' = dropWhile isSpace r
          in if takeWhile isSpace r \<noteq> [] \<and> takeWhile isDigit r' \<noteq> []
             then Some (dropWhile isDigit r') else None)"

definition matchStep :: "string \<Rightarrow> (unit \<times> string) option" where
  "matchStep s =
     (case s of
        [] \<Rightarrow> None
      | c # r \<Rightarrow>
          if c = CHR ''[''
          then map_option (Pair ()) (matchLabel (dropWhile isSpace r))
          else if c = CHR 0x22
          then map_option (Pair ()) (matchLabel r)
          else None)"

text \<open>\<open>/\[[^\]]+\]/g\<close>: the match is the box with its brackets.\<close>

definition matchBox :: "string \<Rightarrow> (string \<times> string) option" where
  "matchBox s =
     (case s of
        [] \<Rightarrow> None
      | c # r \<Rightarrow>
          let inner = takeWhile (\<lambda>x. x \<noteq> CHR '']'') r;
              after = dropWhile (\<lambda>x. x \<noteq> CHR '']'') r
          in if c = CHR ''['' \<and> inner \<noteq> [] \<and> after \<noteq> []
             then Some (c # inner @ '']'', tl after) else None)"

definition isProcessBox :: "string \<Rightarrow> bool" where
  "isProcessBox box =
     (\<not> strIncludes ''start'' (toLowerCase box) \<and>
      \<not> strIncludes ''end'' (toLowerCase box) \<and>
      \<not> strIncludes ''begin'' (toLowerCase box))"

definition countSteps :: "string \<Rightarrow> nat" where
  "countSteps diagramCode =
     (let totalSteps = length (scanAll matchStep diagramCode)
      in if totalSteps = 0
         then length (filter isProcessBox (scanAll matchBox diagramCode))
         else totalSteps)"

subsection \<open>Adding up the durations\<close>

text \<open>\<open>/(\d+)\s*(min|minute|minutes?|hour|hours?|day|days?|hr|hrs|h|d)/gi\<close>. The
  alternatives are tried in the order written, \<open>minutes?\<close> as \<open>minutes\<close> then \<open>minute\<close>; the
  match is the digits, the white space and the unit as the text has them.\<close>

definition timeUnits :: "string list" where
  "timeUnits =
     [''min'', ''minute'', ''minutes'', ''minute'', ''hour'', ''hours'', ''hour'',
      ''day'', ''days'', ''day'', ''hr'', ''hrs'', ''h'', ''d'']"

definition matchTime :: "string \<Rightarrow> (string \<times> string) option" where
  "matchTime s =
     (let ds = takeWhile isDigit s; r = dropWhile isDigit s;
          ws = takeWhile isSpace r; r' = dropWhile isSpace r
      in if ds = [] then None
         else case firstAlt timeUnits r' of
                None \<Rightarrow> None
              | Some u \<Rightarrow> Some (ds @ ws @ take (length u) r', drop (length u) r'))"

text \<open>\<open>time.match(/(\d+)/)\<close>: the first run of digits of a text.\<close>

definition firstDigits :: "string \<Rightarrow> string option" where
  "firstDigits s =
     (let ds = takeWhile isDigit (dropWhile (\<lambda>c. \<not> isDigit c) s)
      in if ds = [] then None else Some ds)"

text \<open>The body of the \<open>forEach\<close>: the state is \<open>(totalTimeMinutes, hasValidTotalTime)\<close>.\<close>

definition addTime :: "nat \<times> bool \<Rightarrow> string \<Rightarrow> nat \<times> bool" where
  "addTime st timeText =
     (case firstDigits timeText of
        None \<Rightarrow> st
      | Some ds \<Rightarrow>
          let v = parseDigits ds
          in if regexTest [''hour'', ''hr'', ''h''] timeText then (fst st + v * 60, True)
             else if regexTest [''min'', ''minute''] timeText then (fst st + v, True)
             else if regexTest [''day'', ''d''] timeText then (fst st + v * 60 * 8, True)
             else st)"

text \<open>The template literals that format the total.\<close>

definition plural :: "nat \<Rightarrow> string" where
  "plural n = (if n \<noteq> 1 then ''s'' else [])"

definition formatTotalTime :: "nat \<Rightarrow> string" where
  "formatTotalTime totalTimeMinutes =
     (if 60 \<le> totalTimeMinutes
      then let hours = totalTimeMinutes div 60; minutes = totalTimeMinutes mod 60
           in showNat hours @ '' hour'' @ plural hours @
              (if 0 < minutes then '' '' @ showNat minutes @ '' minute'' @ plural minutes else [])
      else showNat totalTimeMinutes @ '' minute'' @ plural totalTimeMinutes)"

text \<open>
  The result of \<open>extractWorkflowMetrics\<close>. Its fourth property, \<open>stepTimes\<close>, is computed
  by \<open>extractStepTimesFromDiagram\<close> from the diagram alone and has no influence on the
  other three; it is not part of this record.
\<close>

record workflowMetrics =
  wTotalSteps :: nat
  wTotalTime :: string
  wTimeEstimates :: "string list"

definition extractWorkflowMetrics :: "string option \<Rightarrow> workflowMetrics" where
  "extractWorkflowMetrics diagramCode =
     (case diagramCode of
        None \<Rightarrow> \<lparr>wTotalSteps = 0, wTotalTime = ''Unknown'', wTimeEstimates = []\<rparr>
      | Some code \<Rightarrow>
          if code = [] then \<lparr>wTotalSteps = 0, wTotalTime = ''Unknown'', wTimeEstimates = []\<rparr>
          else
            let timeEstimates = map trim (scanAll matchTime code);
                st = foldl addTime (0, False) timeEstimates;
                totalTimeFormatted = (if snd st then formatTotalTime (fst st) else ''Unknown'')
            in \<lparr>wTotalSteps = countSteps code,
                wTotalTime = (if snd st then totalTimeFormatted else ''Unknown''),
                wTimeEstimates = timeEstimates\<rparr>)"

text \<open>The diagram of the worked example.\<close>

definition reviewApproveDiagram :: string where
  "reviewApproveDiagram =
     ''graph TD'' @ [CHR 0x0A] @ ''A[Step 1: Review (30 min)] --> B[Step 2: Approve (1 hour)]''"

subsection \<open>The duration aggregation as the specification words it\<close>










section \<open>pages/api/process-documents.js: combineDocumentData\<close>

text \<open>
  A row of a table is an object from column names to cell texts: a list of pairs in the
  order of the properties, with distinct keys. \<open>setProp\<close> is the assignment
  \<open>row[key] = value\<close>, which keeps the place of a property that exists and appends a new
  one; \<open>getProp\<close> is the read \<open>row[key]\<close>.
\<close>

type_synonym row = "(string \<times> string) list"

fun setProp :: "'k \<Rightarrow> 'v \<Rightarrow> ('k \<times> 'v) list \<Rightarrow> ('k \<times> 'v) list" where
  "setProp k v [] = [(k, v)]"
| "setProp k v (p # ps) = (if fst p = k then (k, v) # ps else p # setProp k v ps)"

definition getProp :: "row \<Rightarrow> string \<Rightarrow> string option" where
  "getProp r k = map_of r k"

datatype docType = Pdf | Docx | Csv | Excel | Text | Error

text \<open>The \<open>content\<close> of a record: a text, the rows of a table, or the bytes of a
  buffer that was passed on as it came.\<close>

datatype content = TextContent string | Rows "row list" | Binary string

text \<open>\<open>structuredData\<close>: what the PDF extractor writes (title, sections as pairs of
  title and content, keywords, diagramDetected) and what the combination writes.\<close>

record structuredData =
  sdTitle :: "string option"
  sdSections :: "(string \<times> string) list option"
  sdKeywords :: "string list option"
  diagramDetected :: "bool option"
  documentCount :: "nat option"
  documentTypes :: "docType list option"
  documentNames :: "string list option"

record extractedData =
  content :: content
  dtype :: docType
  parsed :: bool
  headers :: "string list option"
  fileNames :: "string list option"
  structured :: "structuredData option"
  error :: "string option"
  pageCount :: "nat option"
  containsDiagrams :: "bool option"
  parseNote :: "string option"
  messages :: "string list option"
  sheetNames :: "string list option"

text \<open>A record with the three properties that every record has and no other. (The
  properties \<open>info\<close> and \<open>rawMetadata\<close> of a PDF record hold objects of the PDF
  library and are left out.)\<close>

definition dataOf :: "content \<Rightarrow> docType \<Rightarrow> bool \<Rightarrow> extractedData" where
  "dataOf c t p =
     \<lparr>content = c, dtype = t, parsed = p, headers = None, fileNames = None,
      structured = None, error = None, pageCount = None, containsDiagrams = None,
      parseNote = None, messages = None, sheetNames = None\<rparr>"

text \<open>An entry of \<open>processedDocuments\<close>: \<open>{fileName, extractedData, parsed:
  extractedData.parsed}\<close> for a file that was read and parsed, \<open>{fileName, error, parsed:
  false}\<close> otherwise.\<close>

datatype processedDocument = Processed string extractedData | Failed string string

fun docParsed :: "processedDocument \<Rightarrow> bool" where
  "docParsed (Processed f d) = parsed d"
| "docParsed (Failed f e) = False"

fun docFileName :: "processedDocument \<Rightarrow> string" where
  "docFileName (Processed f d) = f"
| "docFileName (Failed f e) = f"

text \<open>\<open>validDocuments\<close> as pairs of file name and extracted data.\<close>

fun validDocument :: "processedDocument \<Rightarrow> (string \<times> extractedData) list" where
  "validDocument (Processed f d) = (if parsed d then [(f, d)] else [])"
| "validDocument (Failed f e) = []"

text \<open>A \<open>Set\<close> lists its elements in the order of their first insertion.\<close>

definition setAdd :: "'a list \<Rightarrow> 'a \<Rightarrow> 'a list" where
  "setAdd s x = (if x \<in> set s then s else s @ [x])"

definition setFrom :: "'a list \<Rightarrow> 'a list" where
  "setFrom xs = foldl setAdd [] xs"

text \<open>The row written for a source row: every header empty, then the cells of the
  source row whose column is a header, then the source file.\<close>

definition standardizedRow :: "string list \<Rightarrow> string \<Rightarrow> row \<Rightarrow> row" where
  "standardizedRow hs fileName r =
     (let r0 = foldl (\<lambda>acc header. setProp header [] acc) [] hs;
          r1 = foldl (\<lambda>acc kv. if fst kv \<in> set hs then setProp (fst kv) (snd kv) acc else acc)
                 r0 r
      in setProp ''Source File'' fileName r1)"

definition contentRows :: "content \<Rightarrow> row list" where
  "contentRows c = (case c of Rows rs \<Rightarrow> rs | _ \<Rightarrow> [])"

definition mergeTabular :: "docType \<Rightarrow> (string \<times> extractedData) list \<Rightarrow> extractedData" where
  "mergeTabular t validDocuments =
     (let allHeaders = foldl (\<lambda>acc doc. case headers (snd doc) of
                                            None \<Rightarrow> acc
                                          | Some hs \<Rightarrow> foldl setAdd acc hs) [] validDocuments;
          rows = concat (map (\<lambda>doc. map (standardizedRow allHeaders (fst doc))
                                      (contentRows (content (snd doc)))) validDocuments)
      in (dataOf (Rows rows) t True)
           \<lparr>headers := Some (if ''Source File'' \<in> set allHeaders then allHeaders
                             else allHeaders @ [''Source File'']),
            fileNames := Some (map fst validDocuments)\<rparr>)"

text \<open>The text branches. \<open>JSON.stringify\<close> of a content that is not a string is a
  parameter.\<close>

definition newline :: string where
  "newline = [CHR 0x0A]"

definition mergeText ::
  "(content \<Rightarrow> string) \<Rightarrow> docType list \<Rightarrow> (string \<times> extractedData) list \<Rightarrow> extractedData" where
  "mergeText stringify docTypes validDocuments =
     (let text = concat (map (\<lambda>doc.
                   newline @ newline @ ''===== DOCUMENT: '' @ fst doc @ '' ====='' @ newline @ newline @
                   (case content (snd doc) of TextContent t \<Rightarrow> t | c \<Rightarrow> stringify c))
                 validDocuments);
          allKeywords = foldl (\<lambda>acc doc. case structured (snd doc) of
                                  None \<Rightarrow> acc
                                | Some sd \<Rightarrow> (case sdKeywords sd of
                                               None \<Rightarrow> acc
                                             | Some ks \<Rightarrow> foldl setAdd acc ks)) [] validDocuments
      in (dataOf (TextContent text) Text True)
           \<lparr>fileNames := Some (map fst validDocuments),
            structured := Some \<lparr>sdTitle = None, sdSections = None,
                                sdKeywords = Some allKeywords, diagramDetected = None,
                                documentCount = Some (length validDocuments),
                                documentTypes = Some docTypes,
                                documentNames = Some (map fst validDocuments)\<rparr>\<rparr>)"

fun intercalate :: "string \<Rightarrow> string list \<Rightarrow> string" where
  "intercalate sep [] = []"
| "intercalate sep [x] = x"
| "intercalate sep (x # y # ys) = x @ sep @ intercalate sep (y # ys)"

definition docTypeName :: "docType \<Rightarrow> string" where
  "docTypeName t =
     (case t of Pdf \<Rightarrow> ''pdf'' | Docx \<Rightarrow> ''docx'' | Csv \<Rightarrow> ''csv'' | Excel \<Rightarrow> ''excel''
      | Text \<Rightarrow> ''text'' | Error \<Rightarrow> ''error'')"

definition tableText :: "string list option \<Rightarrow> row list \<Rightarrow> string" where
  "tableText hdrs rs =
     (let hs = (case hdrs of
                  Some h \<Rightarrow> h
                | None \<Rightarrow> (case rs of [] \<Rightarrow> [] | r # _ \<Rightarrow> map fst r))
      in intercalate '','' hs @ newline @
         concat (map (\<lambda>r. intercalate '',''
                   (map (\<lambda>h. case getProp r h of
                                 None \<Rightarrow> []
                               | Some v \<Rightarrow> if CHR '','' \<in> set v then [CHR 0x22] @ v @ [CHR 0x22]
                                           else v) hs) @ newline) rs))"

definition mergeMixed ::
  "(content \<Rightarrow> string) \<Rightarrow> (string \<times> extractedData) list \<Rightarrow> extractedData" where
  "mergeMixed stringify validDocuments =
     (let text = concat (map (\<lambda>doc.
                   newline @ newline @ ''===== DOCUMENT: '' @ fst doc @ '' ('' @
                   docTypeName (dtype (snd doc)) @ '') ====='' @ newline @ newline @
                   (case content (snd doc) of
                      TextContent t \<Rightarrow> t
                    | Rows rs \<Rightarrow> tableText (headers (snd doc)) rs
                    | c \<Rightarrow> stringify c))
                 validDocuments)
      in (dataOf (TextContent text) Text True)\<lparr>fileNames := Some (map fst validDocuments)\<rparr>)"

definition combineDocumentData ::
  "(content \<Rightarrow> string) \<Rightarrow> processedDocument list \<Rightarrow> extractedData" where
  "combineDocumentData stringify processedDocuments =
     (let validDocuments = concat (map validDocument processedDocuments)
      in case validDocuments of
           [] \<Rightarrow> dataOf (TextContent ''No valid documents to process'') Text False
         | [doc] \<Rightarrow> snd doc
         | _ \<Rightarrow>
             let docTypes = setFrom (map (\<lambda>doc. dtype (snd doc)) validDocuments)
             in if length docTypes = 1 \<and> (Csv \<in> set docTypes \<or> Excel \<in> set docTypes)
                then mergeTabular (hd docTypes) validDocuments
                else if Pdf \<in> set docTypes \<or> Docx \<in> set docTypes \<or> Text \<in> set docTypes
                then mergeText stringify docTypes validDocuments
                else mergeMixed stringify validDocuments)"

text \<open>Two parsed CSV records with the headers A, B and B, C.\<close>

definition csvRecord :: "string list \<Rightarrow> row list \<Rightarrow> extractedData" where
  "csvRecord hs rs =
     (dataOf (Rows rs) Csv True)\<lparr>headers := Some hs\<rparr>"

text \<open>The cell of a source row under a column, or a default when the row has none.\<close>

definition cell :: "row \<Rightarrow> string \<Rightarrow> string \<Rightarrow> string" where
  "cell r k d = (case getProp r k of Some v \<Rightarrow> v | None \<Rightarrow> d)"

definition combinedRow :: "string \<Rightarrow> row \<Rightarrow> row" where
  "combinedRow fileName r =
     [(''A'', cell r ''A'' []), (''B'', cell r ''B'' []), (''C'', cell r ''C'' []),
      (''Source File'', fileName)]"

definition rowsOne :: "row list" where
  "rowsOne = [[(''A'', ''1''), (''B'', ''2'')]]"

definition rowsTwo :: "row list" where
  "rowsTwo = [[(''B'', ''3''), (''C'', ''4'')], [(''B'', ''5''), (''C'', [])]]"

section \<open>The generation calls and their fallback\<close>

text \<open>
  A call of the provider (\<open>anthropic.messages.create\<close> followed by the read of
  \<open>response.content[0].text\<close>) either throws, with a message, or gives the generated
  text. The provider is a parameter: its outcome may depend on the request and on how
  many calls were made before. The functions return, with their result, the number of
  provider calls they made.
\<close>

record request =
  maxTokens :: nat
  temperature :: string
  system :: string
  prompt :: string

type_synonym provider = "nat \<Rightarrow> request \<Rightarrow> string + string"

subsection \<open>utils/documentGenerator.js: generateFormattedDocument\<close>

definition htmlHead :: string where
  "htmlHead =
     newline @ ''<!DOCTYPE html>'' @ newline @ ''<html>'' @ newline @ ''<head>'' @
     newline @ ''    <meta charset='' @ [CHR 0x22] @ ''UTF-8'' @ [CHR 0x22] @ ''>'' @
     newline @ ''    <meta name='' @ [CHR 0x22] @ ''viewport'' @ [CHR 0x22] @
     '' content='' @ [CHR 0x22] @ ''width=device-width, initial-scale=1.0'' @ [CHR 0x22] @
     ''>'' @ newline @ ''    <style>'' @ newline @
     ''        body { font-family: Arial, sans-serif; line-height: 1.6; color: #333; }'' @
     newline @
     ''        table { width: 100%; border-collapse: collapse; margin-bottom: 20px; }'' @
     newline @
     ''        th, td { padding: 10px; text-align: left; vertical-align: top; border: 1px solid #ddd; }'' @
     newline @ ''        th { background-color: #f2f2f2; font-weight: bold; }'' @ newline @
     ''        h2, h3 { color: #444; margin-top: 20px; }'' @ newline @
     ''        .document-title { text-align: center; margin-bottom: 30px; }'' @ newline @
     ''        .document-source { color: #777; font-style: italic; margin-bottom: 10px; }'' @
     newline @
     ''        .file-section { border-top: 2px solid #e0e0e0; margin-top: 40px; padding-top: 20px; }'' @
     newline @ ''    </style>'' @ newline @ ''</head>'' @ newline @ ''<body>'' @ newline @
     ''    ''"

definition htmlTail :: string where
  "htmlTail =
     newline @ ''</body>'' @ newline @ ''</html>''"

definition processGeneratedContent :: "string \<Rightarrow> string" where
  "processGeneratedContent generated =
     (if \<not> strIncludes ''<!DOCTYPE html>'' generated \<and>
         \<not> strIncludes ''<html'' (toLowerCase generated)
      then htmlHead @ generated @ htmlTail
      else generated)"

definition formattingSystem :: string where
  "formattingSystem =
     ''You are a document formatting assistant that creates well-structured process documents based on input data from one or more files. Create documents in a professional HTML format with clear sections. Ensure ALL sections are properly filled with relevant content extracted from the input data. Never leave sections empty or with placeholder text when actual content is available. For each step in the process, include an estimated time for completion. THE OUTPUT SHOULD BE PROPERLY RENDERED HTML, NOT JUST HTML TAGS AS TEXT.''"

record formattedDocument =
  fdContent :: string
  fdFormat :: string

text \<open>\<open>createPrompt\<close> stands for \<open>createPromptForDocumentGeneration\<close>. The result is
  \<open>Inl\<close> of the message of the error thrown, or \<open>Inr\<close> of the document.\<close>

definition generateFormattedDocument ::
  "provider \<Rightarrow> ('d \<Rightarrow> string) \<Rightarrow> 'd \<Rightarrow> (string + formattedDocument) \<times> nat" where
  "generateFormattedDocument call createPrompt extracted =
     (case call 0 \<lparr>maxTokens = 3000, temperature = ''0.2'', system = formattingSystem,
                     prompt = createPrompt extracted\<rparr> of
        Inr generated \<Rightarrow>
          (Inr \<lparr>fdContent = processGeneratedContent generated, fdFormat = ''html''\<rparr>, 1)
      | Inl err \<Rightarrow>
          (case call 1 \<lparr>maxTokens = 4000, temperature = ''0.2'', system = formattingSystem,
                          prompt = createPrompt extracted\<rparr> of
             Inr generated \<Rightarrow>
               (Inr \<lparr>fdContent = processGeneratedContent generated, fdFormat = ''html''\<rparr>, 2)
           | Inl claudeError \<Rightarrow> (Inl err, 2)))"

subsection \<open>pages/api/optimize-process.js: handler\<close>

definition optimizationSystem :: string where
  "optimizationSystem =
     ''You are a process optimization assistant that helps reduce bureaucracy and streamline business workflows. You suggest specific, actionable improvements to reduce the number of steps and total time required for processes.''"

record 'b optimizeRequest =
  httpMethod :: string
  bodyOriginalMetrics :: "metrics option"
  bodyWorkflowDiagram :: "'b option"

datatype 'r httpResponse =
  MethodNotAllowed
  | MissingData
  | Ok 'r
  | ServerError string

text \<open>
  \<open>createPrompt\<close> stands for \<open>createOptimizationPrompt\<close>, and \<open>finish\<close> for the rest of
  the \<open>try\<close> block behind the provider calls (from the parse of the generated text to the
  response object), which may itself throw: \<open>Inl\<close> of the message. The second call is
  made in the \<open>catch\<close> clause of the first and is not guarded by a \<open>try\<close> of its own;
  what it throws reaches the outer \<open>catch\<close>, which answers with status 500 and the
  message of the error it caught.
\<close>

definition handler ::
  "provider \<Rightarrow> (metrics \<Rightarrow> 'b \<Rightarrow> string) \<Rightarrow> (metrics \<Rightarrow> 'b \<Rightarrow> string \<Rightarrow> string + 'r) \<Rightarrow>
   'b optimizeRequest \<Rightarrow> 'r httpResponse \<times> nat" where
  "handler call createPrompt finish req =
     (if httpMethod req \<noteq> ''POST'' then (MethodNotAllowed, 0)
      else case (bodyOriginalMetrics req, bodyWorkflowDiagram req) of
             (Some originalMetrics, Some workflowDiagram) \<Rightarrow>
               (let rq = \<lparr>maxTokens = 2000, temperature = ''0.3'', system = optimizationSystem,
                          prompt = createPrompt originalMetrics workflowDiagram\<rparr>
                in case call 0 rq of
                     Inr optimizationResult \<Rightarrow>
                       (case finish originalMetrics workflowDiagram optimizationResult of
                          Inr r \<Rightarrow> (Ok r, 1)
                        | Inl msg \<Rightarrow> (ServerError msg, 1))
                   | Inl openaiError \<Rightarrow>
                       (case call 1 rq of
                          Inr optimizationResult \<Rightarrow>
                            (case finish originalMetrics workflowDiagram optimizationResult of
                               Inr r \<Rightarrow> (Ok r, 2)
                             | Inl msg \<Rightarrow> (ServerError msg, 2))
                        | Inl msg \<Rightarrow> (ServerError msg, 2)))
           | _ \<Rightarrow> (MissingData, 0))"

text \<open>A provider whose first call fails as rate limited and whose second call fails as
  overloaded, and a well-formed request.\<close>

definition failingTwice :: provider where
  "failingTwice k rq = (if k = 0 then Inl ''rate limited'' else Inl ''overloaded'')"

definition optimizePost :: "string optimizeRequest" where
  "optimizePost =
     \<lparr>httpMethod = ''POST'', bodyOriginalMetrics = Some threeStepDocument,
      bodyWorkflowDiagram = Some ''graph TD''\<rparr>"

section \<open>utils/documentParser.js: parseDocument\<close>

text \<open>What is read from an uploaded file: a string, or the bytes of a buffer.\<close>

datatype fileContent = Str string | Bytes string

subsection \<open>parseCsvContent\<close>

definition LF :: char where
  "LF = CHR 0x0A"

definition CR :: char where
  "CR = CHR 0x0D"

text \<open>\<open>split\<close> by a separator of one character, and by \<open>"\r\n"\<close>.\<close>

fun splitChar :: "char \<Rightarrow> string \<Rightarrow> string list" where
  "splitChar sep [] = [[]]"
| "splitChar sep (c # cs) =
     (if c = sep then [] # splitChar sep cs
      else case splitChar sep cs of [] \<Rightarrow> [[c]] | x # xs \<Rightarrow> (c # x) # xs)"

fun splitCRLF :: "string \<Rightarrow> string list" where
  "splitCRLF [] = [[]]"
| "splitCRLF [c] = [[c]]"
| "splitCRLF (c # d # cs) =
     (if c = CR \<and> d = LF then [] # splitCRLF cs
      else case splitCRLF (d # cs) of [] \<Rightarrow> [[c]] | x # xs \<Rightarrow> (c # x) # xs)"

text \<open>\<open>s.replace(/^["'](.*)["']$/, '$1')\<close>: a text that begins and ends with a quote,
  with no line terminator between the two, loses both; any other text is unchanged.\<close>

definition isQuote :: "char \<Rightarrow> bool" where
  "isQuote c = (c = CHR 0x22 \<or> c = CHR 0x27)"

definition stripQuotes :: "string \<Rightarrow> string" where
  "stripQuotes s =
     (case s of
        [] \<Rightarrow> s
      | c # r \<Rightarrow>
          if isQuote c \<and> r \<noteq> [] \<and> isQuote (last r) \<and> (\<forall>x\<in>set (butlast r). x \<noteq> LF \<and> x \<noteq> CR)
          then butlast r else s)"

definition cleanField :: "string \<Rightarrow> string" where
  "cleanField s = stripQuotes (trim s)"

text \<open>\<open>parseCSVLine\<close>: the loop over the characters of the line, with the character
  before, the quote flag and the field collected so far; the last field is pushed when
  it is not empty.\<close>

fun parseCSVLoop :: "char \<Rightarrow> char option \<Rightarrow> bool \<Rightarrow> string \<Rightarrow> string \<Rightarrow> string list" where
  "parseCSVLoop delimiter prev insideQuotes currentStr [] =
     (if currentStr \<noteq> [] then [cleanField currentStr] else [])"
| "parseCSVLoop delimiter prev insideQuotes currentStr (c # cs) =
     (if c = CHR 0x22 \<and> prev \<noteq> Some (CHR 0x5C)
      then parseCSVLoop delimiter (Some c) (\<not> insideQuotes) currentStr cs
      else if c = delimiter \<and> \<not> insideQuotes
      then cleanField currentStr # parseCSVLoop delimiter (Some c) insideQuotes [] cs
      else parseCSVLoop delimiter (Some c) insideQuotes (currentStr @ [c]) cs)"

definition parseCSVLine :: "string \<Rightarrow> char \<Rightarrow> string list" where
  "parseCSVLine line delimiter = parseCSVLoop delimiter None False [] line"

text \<open>\<open>row[headers[j]] = vals[j] !== undefined ? vals[j] : ''\<close> for every header.\<close>

fun fillRow :: "string list \<Rightarrow> string list \<Rightarrow> row \<Rightarrow> row" where
  "fillRow [] vals r = r"
| "fillRow (h # hs) vals r =
     fillRow hs (tl vals) (setProp h (case vals of [] \<Rightarrow> [] | v # _ \<Rightarrow> v) r)"

definition detectDelimiter :: "string \<Rightarrow> char" where
  "detectDelimiter firstLine =
     (if strIncludes [CHR 0x09] firstLine \<and> 1 < length (splitChar (CHR 0x09) firstLine)
      then CHR 0x09
      else if strIncludes '';'' firstLine \<and> 1 < length (splitChar (CHR '';'') firstLine)
      then CHR '';''
      else CHR '','')"

text \<open>The body of the \<open>try\<close> block, for a content that is a string.\<close>

definition parseCsvText :: "string \<Rightarrow> extractedData" where
  "parseCsvText text =
     (case (if strIncludes [CR, LF] text then splitCRLF text else splitChar LF text) of
        [] \<Rightarrow> dataOf (TextContent text) Csv False
      | firstLine # rest \<Rightarrow>
          let delimiter = detectDelimiter firstLine;
              hs = map cleanField (splitChar delimiter firstLine);
              rows = map (\<lambda>line. fillRow hs (parseCSVLine line delimiter) [])
                       (filter (\<lambda>line. trim line \<noteq> []) rest)
          in (dataOf (Rows rows) Csv True)\<lparr>headers := Some hs\<rparr>)"

text \<open>A buffer has \<open>includes\<close> but no \<open>split\<close>: the call throws a \<open>TypeError\<close>, which the
  \<open>catch\<close> clause turns into a record.\<close>

definition parseCsvContent :: "fileContent \<Rightarrow> extractedData" where
  "parseCsvContent c =
     (case c of
        Str text \<Rightarrow> parseCsvText text
      | Bytes b \<Rightarrow>
          (dataOf (Binary b) Text False)\<lparr>error := Some ''content.split is not a function''\<rparr>)"

subsection \<open>parseTextContent\<close>

text \<open>The three replacements: \<open>/\r\n/g\<close> and \<open>/\r/g\<close> by a line feed, then
  \<open>/\n{3,}/g\<close> by two line feeds (\<open>collapse\<close> counts the line feeds written since the
  last other character and drops those beyond the second).\<close>

fun crlfToLf :: "string \<Rightarrow> string" where
  "crlfToLf [] = []"
| "crlfToLf [c] = [c]"
| "crlfToLf (c # d # cs) = (if c = CR \<and> d = LF then LF # crlfToLf cs else c # crlfToLf (d # cs))"

fun collapse :: "nat \<Rightarrow> string \<Rightarrow> string" where
  "collapse n [] = []"
| "collapse n (c # cs) =
     (if c = LF then (if n < 2 then c # collapse (Suc n) cs else collapse n cs)
      else c # collapse 0 cs)"

definition normalizeText :: "string \<Rightarrow> string" where
  "normalizeText t = collapse 0 (map (\<lambda>c. if c = CR then LF else c) (crlfToLf t))"

text \<open>\<open>decode\<close> stands for \<open>new TextDecoder('utf-8').decode\<close>; \<open>Inl\<close> when it throws.\<close>

definition parseTextContent :: "(string \<Rightarrow> string + string) \<Rightarrow> fileContent \<Rightarrow> extractedData" where
  "parseTextContent decode c =
     (let textContent =
            (case c of
               Str s \<Rightarrow> s
             | Bytes b \<Rightarrow> (case decode b of
                            Inr t \<Rightarrow> t
                          | Inl e \<Rightarrow> ''Unable to decode binary content''))
      in dataOf (TextContent (normalizeText textContent)) Text True)"

subsection \<open>The extractors that call a library\<close>

text \<open>
  The libraries are parameters. Each call either throws, with the message of the error
  (\<open>Inl\<close>), or returns (\<open>Inr\<close>): \<open>pdf-parse\<close> with the page renderer and without any
  option gives the text and the number of pages; \<open>mammoth.extractRawText\<close> gives the
  text and the messages; \<open>xlsx\<close> (import, \<open>read\<close> and \<open>sheet_to_json\<close> of the first sheet)
  gives the sheet names, the header row if the sheet has a row (its cells as texts) and
  the rows below it, where a cell may be \<open>undefined\<close>.
\<close>

record pdfData =
  pdfText :: string
  numpages :: nat

record sheetData =
  workbookSheets :: "string list"
  headerRow :: "string list option"
  dataRows :: "string option list list"

record libraries =
  pdfParseRendered :: "fileContent \<Rightarrow> string + pdfData"
  pdfParsePlain :: "fileContent \<Rightarrow> string + pdfData"
  mammothExtract :: "fileContent \<Rightarrow> string + string \<times> string list"
  xlsxRead :: "fileContent \<Rightarrow> string + sheetData"
  utf8Decode :: "string \<Rightarrow> string + string"

text \<open>The helpers that describe a PDF whose text was extracted (\<open>processPdfText\<close>,
  \<open>checkForDiagramIndicators\<close>, \<open>extractDocumentTitle\<close>, \<open>extractSections\<close>,
  \<open>extractKeywords\<close>) are parameters as well: they are total on texts and run only
  after the first extraction succeeded.\<close>

record pdfHelpers =
  processPdfText :: "string \<Rightarrow> string"
  checkForDiagramIndicators :: "string \<Rightarrow> string \<Rightarrow> bool"
  extractDocumentTitle :: "pdfData \<Rightarrow> string \<Rightarrow> string"
  extractSections :: "string \<Rightarrow> (string \<times> string) list"
  extractKeywords :: "string \<Rightarrow> string list"

definition parsePdfContent ::
  "libraries \<Rightarrow> pdfHelpers \<Rightarrow> fileContent \<Rightarrow> string \<Rightarrow> extractedData" where
  "parsePdfContent libs helpers buffer fileName =
     (case pdfParseRendered libs buffer of
        Inr d \<Rightarrow>
          let processedText = processPdfText helpers (pdfText d);
              mightContainDiagrams = checkForDiagramIndicators helpers processedText fileName
          in (dataOf (TextContent processedText) Pdf True)
               \<lparr>structured := Some
                  \<lparr>sdTitle = Some (extractDocumentTitle helpers d fileName),
                   sdSections = Some (extractSections helpers processedText),
                   sdKeywords = Some (extractKeywords helpers processedText),
                   diagramDetected = Some mightContainDiagrams,
                   documentCount = None, documentTypes = None, documentNames = None\<rparr>,
                pageCount := Some (numpages d),
                containsDiagrams := Some mightContainDiagrams\<rparr>
      | Inl err \<Rightarrow>
          (case pdfParsePlain libs buffer of
             Inr d \<Rightarrow>
               (dataOf (TextContent (pdfText d)) Pdf True)
                 \<lparr>pageCount := Some (numpages d),
                  parseNote := Some ''Used fallback parsing method - structure may be impacted''\<rparr>
           | Inl fallbackError \<Rightarrow>
               (dataOf (TextContent (''Failed to parse PDF content after multiple attempts: '' @ err))
                  Pdf False)\<lparr>error := Some err\<rparr>))"

definition parseDocxContent :: "libraries \<Rightarrow> fileContent \<Rightarrow> extractedData" where
  "parseDocxContent libs buffer =
     (case mammothExtract libs buffer of
        Inr res \<Rightarrow> (dataOf (TextContent (fst res)) Docx True)\<lparr>messages := Some (snd res)\<rparr>
      | Inl err \<Rightarrow>
          (dataOf (TextContent (''Failed to parse DOCX content: '' @ err)) Docx False)
            \<lparr>error := Some err\<rparr>)"

text \<open>\<open>row[headers[j]] = value !== undefined ? value : ''\<close> for every header.\<close>

fun fillCells :: "string list \<Rightarrow> string option list \<Rightarrow> row \<Rightarrow> row" where
  "fillCells [] cells r = r"
| "fillCells (h # hs) cells r =
     fillCells hs (tl cells)
       (setProp h (case cells of [] \<Rightarrow> [] | None # _ \<Rightarrow> [] | Some v # _ \<Rightarrow> v) r)"

definition parseExcelContent :: "libraries \<Rightarrow> fileContent \<Rightarrow> extractedData" where
  "parseExcelContent libs buffer =
     (case xlsxRead libs buffer of
        Inl err \<Rightarrow>
          (dataOf (TextContent (''Failed to parse Excel file: '' @ err)) Excel False)
            \<lparr>error := Some err\<rparr>
      | Inr sheet \<Rightarrow>
          (case headerRow sheet of
             None \<Rightarrow> dataOf (TextContent ''Excel file appears to be empty'') Excel False
           | Some hdr \<Rightarrow>
               let hs = map trim hdr;
                   rows = map (\<lambda>cells. fillCells hs cells []) (filter (\<lambda>cells. cells \<noteq> []) (dataRows sheet))
               in (dataOf (Rows rows) Excel True)
                    \<lparr>headers := Some hs, sheetNames := Some (workbookSheets sheet)\<rparr>))"

subsection \<open>The dispatch\<close>

text \<open>\<open>mimeType && mimeType.includes(part)\<close>\<close>

definition mimeHas :: "string option \<Rightarrow> string \<Rightarrow> bool" where
  "mimeHas mimeType part =
     (case mimeType of None \<Rightarrow> False | Some m \<Rightarrow> m \<noteq> [] \<and> strIncludes part m)"

text \<open>The \<open>try\<close> block of \<open>parseDocument\<close>: \<open>Inl\<close> would be the message of an error
  thrown in it.\<close>

definition dispatch ::
  "libraries \<Rightarrow> pdfHelpers \<Rightarrow> fileContent \<Rightarrow> string option \<Rightarrow> string \<Rightarrow> string + extractedData" where
  "dispatch libs helpers fileContent mimeType fileName =
     (if mimeHas mimeType ''pdf'' then Inr (parsePdfContent libs helpers fileContent fileName)
      else if mimeHas mimeType ''msword'' \<or>
              mimeHas mimeType ''officedocument.wordprocessingml.document''
      then Inr (parseDocxContent libs fileContent)
      else if mimeHas mimeType ''csv'' then Inr (parseCsvContent fileContent)
      else if mimeHas mimeType ''excel'' \<or> mimeHas mimeType ''spreadsheetml.sheet''
      then Inr (parseExcelContent libs fileContent)
      else Inr (parseTextContent (utf8Decode libs) fileContent))"

definition parseDocument ::
  "libraries \<Rightarrow> pdfHelpers \<Rightarrow> fileContent \<Rightarrow> string option \<Rightarrow> string \<Rightarrow> extractedData" where
  "parseDocument libs helpers fileContent mimeType fileName =
     (case dispatch libs helpers fileContent mimeType fileName of
        Inr r \<Rightarrow> r
      | Inl msg \<Rightarrow>
          (dataOf (TextContent (''Failed to parse document: '' @ msg)) Error False)
            \<lparr>error := Some msg\<rparr>)"

subsection \<open>Example inputs\<close>

text \<open>Libraries that all throw; a spreadsheet library that reads a workbook whose first
  sheet has no row; helpers that do nothing.\<close>

definition brokenLibraries :: libraries where
  "brokenLibraries =
     \<lparr>pdfParseRendered = (\<lambda>b. Inl ''Invalid PDF structure''),
      pdfParsePlain = (\<lambda>b. Inl ''bad XRef entry''),
      mammothExtract = (\<lambda>b. Inl ''Could not find file in options''),
      xlsxRead = (\<lambda>b. Inl ''Unsupported file''),
      utf8Decode = (\<lambda>b. Inl ''The encoded data was not valid'')\<rparr>"

definition emptySheetLibraries :: libraries where
  "emptySheetLibraries =
     brokenLibraries\<lparr>xlsxRead := (\<lambda>b. Inr \<lparr>workbookSheets = [''Sheet1''], headerRow = None,
                                               dataRows = []\<rparr>)\<rparr>"

definition plainHelpers :: pdfHelpers where
  "plainHelpers =
     \<lparr>processPdfText = (\<lambda>t. t), checkForDiagramIndicators = (\<lambda>t f. False),
      extractDocumentTitle = (\<lambda>d f. f), extractSections = (\<lambda>t. []),
      extractKeywords = (\<lambda>t. [])\<rparr>"

text \<open>A CSV text whose second line opens a quote that is never closed.\<close>

definition unbalancedCsv :: string where
  "unbalancedCsv = ''a,b'' @ [LF] @ [CHR 0x22] @ ''x,y''"

section \<open>utils/metricsExtractor.js: parseOptimizationResult\<close>

subsection \<open>JSON.parse\<close>

text \<open>
  The values of JSON. A string value is kept as its code units, since an escape
  \<open>\uXXXX\<close> can denote any of them; a number is kept as the literal that was read (the
  runtime converts it to the nearest double). The properties of an object are listed in
  the order of their first occurrence, a later occurrence of a key replacing the value.
\<close>

datatype json =
  JNull
  | JBool bool
  | JNumber string
  | JString "nat list"
  | JArray "json list"
  | JObject "(nat list \<times> json) list"

definition jsonWs :: "char \<Rightarrow> bool" where
  "jsonWs c = (c = CHR '' '' \<or> c = CHR 0x09 \<or> c = CHR 0x0A \<or> c = CHR 0x0D)"

definition skipWs :: "string \<Rightarrow> string" where
  "skipWs s = dropWhile jsonWs s"

definition hexVal :: "char \<Rightarrow> nat option" where
  "hexVal c =
     (let n = (of_char c :: nat)
      in if 48 \<le> n \<and> n \<le> 57 then Some (n - 48)
         else if 65 \<le> n \<and> n \<le> 70 then Some (n - 55)
         else if 97 \<le> n \<and> n \<le> 102 then Some (n - 87)
         else None)"

text \<open>\<open>\uXXXX\<close>: the code unit of four hexadecimal digits.\<close>

definition hex4 :: "char \<Rightarrow> char \<Rightarrow> char \<Rightarrow> char \<Rightarrow> nat option" where
  "hex4 a b c d =
     (case (hexVal a, hexVal b, hexVal c, hexVal d) of
        (Some w, Some x, Some y, Some z) \<Rightarrow> Some (((w * 16 + x) * 16 + y) * 16 + z)
      | _ \<Rightarrow> None)"

definition escapeUnit :: "char \<Rightarrow> nat option" where
  "escapeUnit e =
     (if e = CHR 0x22 \<or> e = CHR 0x5C \<or> e = CHR ''/'' then Some (of_char e)
      else if e = CHR ''b'' then Some 8
      else if e = CHR ''f'' then Some 12
      else if e = CHR ''n'' then Some 10
      else if e = CHR ''r'' then Some 13
      else if e = CHR ''t'' then Some 9
      else None)"

definition consUnit :: "nat \<Rightarrow> (nat list \<times> string) option \<Rightarrow> (nat list \<times> string) option" where
  "consUnit u r = (case r of None \<Rightarrow> None | Some p \<Rightarrow> Some (u # fst p, snd p))"

text \<open>The characters of a string literal behind its opening quote, up to the closing
  quote: the code units and the text behind the literal.\<close>

fun jsonChars :: "string \<Rightarrow> (nat list \<times> string) option" where
  "jsonChars [] = None"
| "jsonChars (c # cs) =
     (if c = CHR 0x22 then Some ([], cs)
      else if c = CHR 0x5C
      then (case cs of
              [] \<Rightarrow> None
            | e # r \<Rightarrow>
                if e = CHR ''u''
                then (case r of
                        h1 # h2 # h3 # h4 # r' \<Rightarrow>
                          (case hex4 h1 h2 h3 h4 of
                             None \<Rightarrow> None
                           | Some u \<Rightarrow> consUnit u (jsonChars r'))
                      | _ \<Rightarrow> None)
                else (case escapeUnit e of
                        None \<Rightarrow> None
                      | Some u \<Rightarrow> consUnit u (jsonChars r)))
      else if (of_char c :: nat) < 32 then None
      else consUnit (of_char c) (jsonChars cs))"

text \<open>A number literal at the front of a text: an optional minus, \<open>0\<close> or a run of digits
  that does not begin with \<open>0\<close>, an optional fraction, an optional exponent. The literal
  and the text behind it.\<close>

definition fractionPart :: "string \<Rightarrow> string" where
  "fractionPart s =
     (case s of
        [] \<Rightarrow> []
      | c # r \<Rightarrow> if c = CHR ''.'' \<and> takeWhile isDigit r \<noteq> [] then c # takeWhile isDigit r else [])"

definition exponentPart :: "string \<Rightarrow> string" where
  "exponentPart s =
     (case s of
        [] \<Rightarrow> []
      | e # r \<Rightarrow>
          if e = CHR ''e'' \<or> e = CHR ''E''
          then (case r of
                  [] \<Rightarrow> []
                | g # r' \<Rightarrow>
                    if (g = CHR ''+'' \<or> g = CHR ''-'') \<and> takeWhile isDigit r' \<noteq> []
                    then e # g # takeWhile isDigit r'
                    else if takeWhile isDigit r \<noteq> [] then e # takeWhile isDigit r
                    else [])
          else [])"

definition integerPart :: "string \<Rightarrow> string" where
  "integerPart s =
     (case s of
        [] \<Rightarrow> []
      | c # r \<Rightarrow> if c = CHR ''0'' then [c] else takeWhile isDigit s)"

definition jsonNumber :: "string \<Rightarrow> (string \<times> string) option" where
  "jsonNumber s =
     (let sign = (case s of [] \<Rightarrow> [] | c # r \<Rightarrow> if c = CHR ''-'' then [c] else []);
          s1 = drop (length sign) s;
          ip = integerPart s1;
          s2 = drop (length ip) s1;
          fp = fractionPart s2;
          s3 = drop (length fp) s2;
          ep = exponentPart s3
      in if ip = [] then None else Some (sign @ ip @ fp @ ep, drop (length ep) s3))"

lemma length_skipWs: "length (skipWs s) \<le> length s"
  by (simp add: skipWs_def length_dropWhile_le)

lemma skipWs_Cons_length: "skipWs cs = d # r \<Longrightarrow> length r < length cs"
  using length_skipWs [of cs] by simp

text \<open>
  The descent. \<open>parseElements\<close> reads the elements of an array behind those collected,
  \<open>parseMembers\<close> the members of an object. (The tests \<open>length r < length s\<close> always hold
  there, something having been read; they make the termination plain.)
\<close>

function parseValue :: "string \<Rightarrow> (json \<times> string) option"
  and parseElements :: "json list \<Rightarrow> string \<Rightarrow> (json \<times> string) option"
  and parseMembers :: "(nat list \<times> json) list \<Rightarrow> string \<Rightarrow> (json \<times> string) option"
where
  "parseValue s =
     (case s of
        [] \<Rightarrow> None
      | c # cs \<Rightarrow>
          if c = CHR ''{''
          then (case skipWs cs of
                  [] \<Rightarrow> None
                | d # r \<Rightarrow> if d = CHR ''}'' then Some (JObject [], r) else parseMembers [] (d # r))
          else if c = CHR ''[''
          then (case skipWs cs of
                  [] \<Rightarrow> None
                | d # r \<Rightarrow> if d = CHR '']'' then Some (JArray [], r) else parseElements [] (d # r))
          else if c = CHR 0x22
          then (case jsonChars cs of None \<Rightarrow> None | Some p \<Rightarrow> Some (JString (fst p), snd p))
          else if startsWith ''true'' s then Some (JBool True, drop 4 s)
          else if startsWith ''false'' s then Some (JBool False, drop 5 s)
          else if startsWith ''null'' s then Some (JNull, drop 4 s)
          else (case jsonNumber s of None \<Rightarrow> None | Some p \<Rightarrow> Some (JNumber (fst p), snd p)))"
| "parseElements acc s =
     (case parseValue s of
        None \<Rightarrow> None
      | Some p \<Rightarrow>
          (case skipWs (snd p) of
             [] \<Rightarrow> None
           | d # r \<Rightarrow>
               if d = CHR '','' \<and> length r < length s
               then parseElements (acc @ [fst p]) (skipWs r)
               else if d = CHR '']'' then Some (JArray (acc @ [fst p]), r)
               else None))"
| "parseMembers acc s =
     (case s of
        [] \<Rightarrow> None
      | c # cs \<Rightarrow>
          if c \<noteq> CHR 0x22 then None
          else (case jsonChars cs of
                  None \<Rightarrow> None
                | Some k \<Rightarrow>
                    (case skipWs (snd k) of
                       [] \<Rightarrow> None
                     | d # r \<Rightarrow>
                         if d = CHR '':'' \<and> length r < length s
                         then (case parseValue (skipWs r) of
                                 None \<Rightarrow> None
                               | Some p \<Rightarrow>
                                   (case skipWs (snd p) of
                                      [] \<Rightarrow> None
                                    | e # r' \<Rightarrow>
                                        if e = CHR '','' \<and> length r' < length s
                                        then parseMembers (setProp (fst k) (fst p) acc) (skipWs r')
                                        else if e = CHR ''}''
                                        then Some (JObject (setProp (fst k) (fst p) acc), r')
                                        else None))
                         else None)))"
  by pat_completeness auto

termination
proof (relation "measure (\<lambda>x. case x of
          Inl s \<Rightarrow> 2 * length s
        | Inr (Inl p) \<Rightarrow> 2 * length (snd p) + 1
        | Inr (Inr p) \<Rightarrow> 2 * length (snd p) + 1)", goal_cases)
  case 1
  show ?case by simp
next
  case (2 s c cs d r)
  then show ?case using skipWs_Cons_length [of cs d r] by simp
next
  case (3 s c cs d r)
  then show ?case using skipWs_Cons_length [of cs d r] by simp
next
  case (4 acc s)
  show ?case by simp
next
  case (5 acc s p d r)
  then show ?case using length_skipWs [of r] by simp
next
  case (6 acc s c cs k d r)
  then show ?case using length_skipWs [of r] by simp
next
  case (7 acc s c cs k d r p e r')
  then show ?case using length_skipWs [of r'] by simp
qed

text \<open>\<open>JSON.parse\<close>: \<open>None\<close> when it throws a \<open>SyntaxError\<close>.\<close>

definition jsonParse :: "string \<Rightarrow> json option" where
  "jsonParse text =
     (case parseValue (skipWs text) of
        None \<Rightarrow> None
      | Some p \<Rightarrow> if skipWs (snd p) = [] then Some (fst p) else None)"

subsection \<open>The fenced block\<close>

text \<open>The first occurrence of a word in a text: the text before it and the text behind
  it.\<close>

fun findSub :: "string \<Rightarrow> string \<Rightarrow> (string \<times> string) option" where
  "findSub w [] = (if w = [] then Some ([], []) else None)"
| "findSub w (c # cs) =
     (if startsWith w (c # cs) then Some ([], drop (length w) (c # cs))
      else case findSub w cs of None \<Rightarrow> None | Some p \<Rightarrow> Some (c # fst p, snd p))"

definition fence :: string where
  "fence = [CHR 0x60, CHR 0x60, CHR 0x60]"

text \<open>
  \<open>result.match(/```(?:json)?\s*([\s\S]*?)```/)\<close>, group 1: behind the first fence an
  optional \<open>json\<close> and white space are skipped, and the group is the text up to the next
  fence. (Neither \<open>json\<close> nor white space holds a backquote, so giving them back, or
  starting at a later fence, finds no closing fence where this attempt finds none.)
\<close>

definition fencedBlock :: "string \<Rightarrow> string option" where
  "fencedBlock text =
     (case findSub fence text of
        None \<Rightarrow> None
      | Some p \<Rightarrow>
          let r = (if startsWith ''json'' (snd p) then drop 4 (snd p) else snd p)
          in map_option fst (findSub fence (dropWhile isSpace r)))"

lemma dropWhile_Cons_length: "dropWhile P cs = d # r \<Longrightarrow> length r < length cs"
  using length_dropWhile_le [of P cs] by simp

text \<open>\<open>s.replace(/,\s*([\]}])/g, '$1')\<close>: a comma that is followed, behind any white
  space, by a closing bracket or brace is removed together with the white space.\<close>

function stripTrailingCommas :: "string \<Rightarrow> string" where
  "stripTrailingCommas [] = []"
| "stripTrailingCommas (c # cs) =
     (if c = CHR '',''
      then (case dropWhile isSpace cs of
              [] \<Rightarrow> c # stripTrailingCommas cs
            | d # r \<Rightarrow>
                if d = CHR '']'' \<or> d = CHR ''}'' then d # stripTrailingCommas r
                else c # stripTrailingCommas cs)
      else c # stripTrailingCommas cs)"
  by pat_completeness auto

termination
  by (relation "measure length") (auto dest: dropWhile_Cons_length)

subsection \<open>The three tiers\<close>

text \<open>
  The third tier probes the text with regular expressions, one field at a time. A match
  of a regular expression never throws; the probes are parameters, each giving what the
  code stores when its pattern matches: the trimmed summary, the number behind
  \<open>total steps\<close>, the trimmed total time, the bracketed text of the suggestions after
  the three repairing replacements, and the workflow text.
\<close>

record probes =
  summaryProbe :: "string \<Rightarrow> string option"
  totalStepsProbe :: "string \<Rightarrow> nat option"
  totalTimeProbe :: "string \<Rightarrow> string option"
  suggestionsProbe :: "string \<Rightarrow> string option"
  workflowProbe :: "string \<Rightarrow> string option"

text \<open>The suggestions of a recovered object: what \<open>JSON.parse\<close> made of the bracketed
  text, or a list of suggestion objects written by the code.\<close>

datatype suggestions = Parsed json | Written "suggestion list"

text \<open>The object built by the third tier, and the default object (whose \<open>totalSteps\<close>
  and \<open>totalTime\<close> are \<open>null\<close>).\<close>

record recovered =
  rSummary :: "string option"
  rTotalSteps :: "nat option"
  rTotalTime :: "string option"
  rSuggestions :: "suggestions option"
  rStepTimes :: "stepTime list option"
  rWorkflow :: "string option"

text \<open>What \<open>parseOptimizationResult\<close> returns: the value \<open>JSON.parse\<close> returned, or an
  object the function built itself.\<close>

datatype parseResult = Json json | Built recovered

definition defaultOptimizationResult :: recovered where
  "defaultOptimizationResult =
     \<lparr>rSummary = Some ''Optimization completed successfully, but result parsing failed.'',
      rTotalSteps = None,
      rTotalTime = None,
      rSuggestions = Some (Written
        [\<lparr>title = ''Streamline Approval Process'',
          description = ''Consolidate multiple approval steps into a single, parallel approval workflow.'',
          timeSaved = ''Approximately 30% of approval time''\<rparr>,
         \<lparr>title = ''Automate Manual Steps'',
          description = ''Replace manual processes with automation where possible.'',
          timeSaved = ''Up to 40% of manual processing time''\<rparr>]),
      rStepTimes = Some [],
      rWorkflow = None\<rparr>"

definition fallbackSuggestion :: suggestion where
  "fallbackSuggestion =
     \<lparr>title = ''Process Optimization'',
      description = ''Review and optimize the workflow to reduce unnecessary steps.'',
      timeSaved = ''Varies based on implementation''\<rparr>"

definition fieldRecovery :: "probes \<Rightarrow> string \<Rightarrow> recovered" where
  "fieldRecovery pr text =
     \<lparr>rSummary = summaryProbe pr text,
      rTotalSteps = totalStepsProbe pr text,
      rTotalTime = totalTimeProbe pr text,
      rSuggestions =
        (case suggestionsProbe pr text of
           None \<Rightarrow> None
         | Some cleanedSuggestions \<Rightarrow>
             (case jsonParse cleanedSuggestions of
                Some v \<Rightarrow> Some (Parsed v)
              | None \<Rightarrow> Some (Written [fallbackSuggestion]))),
      rStepTimes = None,
      rWorkflow = workflowProbe pr text\<rparr>"

text \<open>The first attempt: \<open>None\<close> when no block is found, the group is empty or
  \<open>JSON.parse\<close> throws (the error is caught and logged).\<close>

definition fencedJson :: "string \<Rightarrow> json option" where
  "fencedJson text =
     (case fencedBlock text of
        None \<Rightarrow> None
      | Some block \<Rightarrow>
          if block = [] then None else jsonParse (stripTrailingCommas (trim block)))"

text \<open>
  The outer \<open>try\<close> block. The argument is a string, or \<open>None\<close> for \<open>undefined\<close> or
  \<open>null\<close>, on which \<open>result.match\<close> throws a \<open>TypeError\<close>: \<open>Inl\<close> is the error thrown.
\<close>

definition tryTiers :: "probes \<Rightarrow> string option \<Rightarrow> string + parseResult" where
  "tryTiers pr result =
     (case result of
        None \<Rightarrow> Inl ''Cannot read properties of undefined (reading 'match')''
      | Some text \<Rightarrow>
          (case fencedJson text of
             Some v \<Rightarrow> Inr (Json v)
           | None \<Rightarrow>
               (case jsonParse (trim text) of
                  Some v \<Rightarrow> Inr (Json v)
                | None \<Rightarrow> Inr (Built (fieldRecovery pr text)))))"

definition parseOptimizationResult :: "probes \<Rightarrow> string option \<Rightarrow> parseResult" where
  "parseOptimizationResult pr result =
     (case tryTiers pr result of
        Inr v \<Rightarrow> v
      | Inl err \<Rightarrow> Built defaultOptimizationResult)"

text \<open>A result is an object when the code built it or \<open>JSON.parse\<close> returned an object
  (and not \<open>null\<close>, a number, a string, a boolean or an array).\<close>

fun isObject :: "parseResult \<Rightarrow> bool" where
  "isObject (Built r) = True"
| "isObject (Json (JObject ps)) = True"
| "isObject (Json v) = False"

text \<open>Probes that find nothing.\<close>

definition silentProbes :: probes where
  "silentProbes =
     \<lparr>summaryProbe = (\<lambda>t. None), totalStepsProbe = (\<lambda>t. None), totalTimeProbe = (\<lambda>t. None),
      suggestionsProbe = (\<lambda>t. None), workflowProbe = (\<lambda>t. None)\<rparr>"

text \<open>A generated text with a fenced block that holds \<open>null\<close>.\<close>

definition fencedNull :: string where
  "fencedNull = ''Here you go:'' @ [LF] @ fence @ ''json'' @ [LF] @ ''null'' @ [LF] @ fence"

text \<open>A generated text with a fenced block that holds an object with a trailing comma.\<close>

definition fencedObject :: string where
  "fencedObject =
     fence @ ''json'' @ [LF] @ ''{'' @ [CHR 0x22] @ ''totalSteps'' @ [CHR 0x22] @ '': 3,}'' @ [LF] @ fence"

section \<open>Evaluating the doubles\<close>

lemma bitLength_0: "bitLength 0 = 0"
  by (simp add: bitLength.simps)

lemma bitLength_pos: "0 < n \<Longrightarrow> bitLength n = Suc (bitLength (n div 2))"
  by (subst bitLength.simps) simp

lemmas double_defs = quotToDouble_def dmul_def roundTo53_def bitLength_0 bitLength_pos Let_def

section \<open>Properties of mergeMetrics\<close>

text \<open>The fields of a merge without optimization metrics: the diagram's step times when
  it has entries, otherwise the document's when that has entries; no entry is added or
  removed.\<close>

lemma merge_totalSteps:
  "totalSteps (mergeMetrics w d None) =
     (if orNat (totalSteps (baseMetrics w)) 0 = 0 then Some (orNat (optField totalSteps d) 0)
      else totalSteps (baseMetrics w))"
  by (simp add: mergeMetrics_def Let_def)

lemma merge_totalTime:
  "totalTime (mergeMetrics w d None) =
     (if totalTime (baseMetrics w) = Some ''Unknown''
      then Some (orString (optField totalTime d) ''Unknown'')
      else totalTime (baseMetrics w))"
  by (simp add: mergeMetrics_def Let_def)

lemma merge_stepTimes:
  "stepTimes (mergeMetrics w d None) =
     (if missingOrEmpty (stepTimes (baseMetrics w)) \<and> \<not> missingOrEmpty (optField stepTimes d)
      then optField stepTimes d else stepTimes (baseMetrics w))"
  by (simp add: mergeMetrics_def Let_def)

lemma merge_rest:
  "timeEstimates (mergeMetrics w d None) = timeEstimates (baseMetrics w)"
  "optimized (mergeMetrics w d None) = optimized (baseMetrics w)"
  "metrics.more (mergeMetrics w d None) = metrics.more (baseMetrics w)"
  by (simp_all add: mergeMetrics_def Let_def)

lemmas merge_fields = merge_totalSteps merge_totalTime merge_stepTimes merge_rest

lemma baseMetrics_Some [simp]: "baseMetrics (Some m) = m"
  by (simp add: baseMetrics_def)

lemma mergeMetrics_again:
  "mergeMetrics (Some (mergeMetrics w d None)) d None = mergeMetrics w d None"
proof (rule metrics.equality)
  show "totalSteps (mergeMetrics (Some (mergeMetrics w d None)) d None)
      = totalSteps (mergeMetrics w d None)"
    by (simp add: merge_totalSteps orNat_def split: option.splits)
  show "totalTime (mergeMetrics (Some (mergeMetrics w d None)) d None)
      = totalTime (mergeMetrics w d None)"
    by (simp add: merge_totalTime orString_def split: option.splits)
  show "stepTimes (mergeMetrics (Some (mergeMetrics w d None)) d None)
      = stepTimes (mergeMetrics w d None)"
    by (simp add: merge_stepTimes)
qed (simp_all add: merge_rest)

lemma mergeMetrics_self:
  "totalSteps m = Some n \<Longrightarrow> mergeMetrics (Some m) (Some m) None = m"
  by (rule metrics.equality)
     (simp_all add: merge_fields optField_def orNat_def orString_def missingOrEmpty_def)

lemma mergeMetrics_totalSteps_defined:
  "\<exists>n. totalSteps (mergeMetrics w d None) = Some n"
  by (simp add: merge_totalSteps orNat_def split: option.splits)

text \<open>
  C1 (as amended). \<open>mergeMetrics\<close> neither truncates nor pads. Its output has as many
  step times as \<open>totalSteps\<close> says when the source that wins the precedence already
  has: the diagram-derived metrics with \<open>totalSteps = n > 0\<close> and \<open>n\<close> step times; or,
  when the diagram-derived metrics count no step and list no step time, the
  document-derived metrics with \<open>totalSteps = n > 0\<close> and \<open>n\<close> step times. In both
  cases the list is passed on unchanged.
\<close>

theorem mergeMetrics_length_preserved:
  assumes "0 < n" and "length sts = n"
  shows "(totalSteps w = Some n \<and> stepTimes w = Some sts \<longrightarrow>
            totalSteps (mergeMetrics (Some w) d None) = Some n \<and>
            stepTimes (mergeMetrics (Some w) d None) = Some sts) \<and>
         (totalSteps w = Some 0 \<and> stepTimes w = Some [] \<and>
          totalSteps dm = Some n \<and> stepTimes dm = Some sts \<longrightarrow>
            totalSteps (mergeMetrics (Some w) (Some dm) None) = Some n \<and>
            stepTimes (mergeMetrics (Some w) (Some dm) None) = Some sts)"
proof -
  from assms have ne: "sts \<noteq> []" by auto
  show ?thesis
    using assms(1) ne
    by (simp add: merge_stepTimes merge_totalSteps orNat_def missingOrEmpty_def optField_def)
qed

theorem mergeMetrics_length_preserved_witness:
  "totalSteps (mergeMetrics (Some emptyDiagram) (Some threeStepDocument) None) = Some 3 \<and>
   stepTimes (mergeMetrics (Some emptyDiagram) (Some threeStepDocument) None)
     = stepTimes threeStepDocument \<and>
   map_option length (stepTimes threeStepDocument) = Some 3"
  using mergeMetrics_length_preserved
    [of 3 "the (stepTimes threeStepDocument)" emptyDiagram None threeStepDocument]
  by (simp add: emptyDiagram_def threeStepDocument_def)

text \<open>
  C1 (as stated) fails: with two steps counted and one step time found in the diagram, the
  merged metrics keep \<open>totalSteps = 2\<close> and the single step time (nothing is padded);
  with one step counted and two step times, both step times are kept (nothing is
  truncated).
\<close>

theorem mergeMetrics_length_counterexample:
  "totalSteps (mergeMetrics (Some twoStepDiagram) (Some threeStepDocument) None) = Some 2 \<and>
   map_option length (stepTimes (mergeMetrics (Some twoStepDiagram) (Some threeStepDocument) None))
     = Some 1 \<and>
   totalSteps (mergeMetrics (Some oneStepDiagram) (Some threeStepDocument) None) = Some 1 \<and>
   map_option length (stepTimes (mergeMetrics (Some oneStepDiagram) (Some threeStepDocument) None))
     = Some 2"
  by (simp add: merge_stepTimes merge_totalSteps orNat_def missingOrEmpty_def
      optField_def twoStepDiagram_def oneStepDiagram_def threeStepDocument_def)

text \<open>
  C5. Merging metrics whose fields are present and whose step times are as many as
  \<open>totalSteps\<close> with themselves returns them unchanged; and merging the output of a
  merge again, with the same document metrics or with itself, returns that output.
\<close>

theorem mergeMetrics_idempotent:
  assumes "totalSteps m = Some n" and "totalTime m = Some t" and "stepTimes m = Some sts"
    and "length sts = n"
  shows "mergeMetrics (Some m) (Some m) None = m \<and>
         mergeMetrics (Some (mergeMetrics w d None)) d None = mergeMetrics w d None \<and>
         mergeMetrics (Some (mergeMetrics w d None)) (Some (mergeMetrics w d None)) None
           = mergeMetrics w d None"
proof -
  obtain k where "totalSteps (mergeMetrics w d None) = Some k"
    using mergeMetrics_totalSteps_defined by blast
  then have "mergeMetrics (Some (mergeMetrics w d None)) (Some (mergeMetrics w d None)) None
           = mergeMetrics w d None"
    by (rule mergeMetrics_self)
  with assms(1) show ?thesis
    by (simp add: mergeMetrics_self mergeMetrics_again)
qed

theorem mergeMetrics_idempotent_witness:
  "mergeMetrics (Some threeStepDocument) (Some threeStepDocument) None = threeStepDocument \<and>
   mergeMetrics (Some (mergeMetrics (Some twoStepDiagram) (Some threeStepDocument) None))
       (Some threeStepDocument) None
     = mergeMetrics (Some twoStepDiagram) (Some threeStepDocument) None"
  using mergeMetrics_idempotent
    [of threeStepDocument 3 "''2 hours''" "the (stepTimes threeStepDocument)"
        "Some twoStepDiagram" "Some threeStepDocument"]
  by (simp add: threeStepDocument_def)

text \<open>
  C6. With an original and an optimized total time of one hour each, both parse to 60
  minutes and \<open>calculateTimeSavingsPercent\<close> returns 0; the merge then reports 30,
  because \<open>0 || 30\<close> is 30.
\<close>

theorem mergeMetrics_zero_savings_reported_as_30:
  "calculateTimeSavingsPercent (Some ''1 hour'') (Some ''1 hour'') = Some 0 \<and>
   map_option timeSavingsPercent
     (optimized (mergeMetrics (Some oneStepDiagram) None (Some sameTimeOptimization))) = Some 30"
proof -
  have p: "metricsExtractor_parseTimeToMinutes (Some ''1 hour'') = Some 60"
    by (simp add: metricsExtractor_parseTimeToMinutes_def matchIntUnit_def isLetter_def
        isDigit_def isSpace_def parseDigits_def digitVal_def)
  have q: "quotToDouble 0 60 = (0, 62)"
    by (simp add: double_defs)
  have m: "dmul (0, 62) 100 = (0, 62)"
    by (simp add: double_defs)
  have r: "roundPercent 60 60 = 0"
    unfolding roundPercent_def by (simp add: q m)
  have c: "calculateTimeSavingsPercent (Some ''1 hour'') (Some ''1 hour'') = Some 0"
    by (simp add: calculateTimeSavingsPercent_def p r)
  show ?thesis
    by (simp add: c mergeMetrics_def oneStepDiagram_def sameTimeOptimization_def orNat_def
        orString_def orInt_def orList_def missingOrEmpty_def optField_def Let_def baseMetrics_def)
qed
section \<open>Properties of parseTimeToMinutes (utils/optimizationUtils.js)\<close>

lemma dval_pos: "0 < fst d \<Longrightarrow> 0 < dval d"
  by (simp add: dval_def)

lemma dval_zero: "fst d = 0 \<Longrightarrow> dval d = 0"
  by (simp add: dval_def)

lemma matchDec_digit: "matchDec s = Some m \<Longrightarrow> \<exists>c\<in>set s. isDigit c"
proof -
  assume "matchDec s = Some m"
  then have "takeWhile isDigit s \<noteq> []"
    by (auto simp: matchDec_def Let_def split: if_splits)
  then obtain c where "c \<in> set (takeWhile isDigit s)"
    by (cases "takeWhile isDigit s") auto
  then show ?thesis
    by (meson set_takeWhileD)
qed

lemma firstDec_digit: "firstDec s = Some m \<Longrightarrow> \<exists>c\<in>set s. isDigit c"
proof (induction s)
  case Nil
  then show ?case by simp
next
  case (Cons c cs)
  show ?case
  proof (cases "matchDec (c # cs)")
    case None
    with Cons show ?thesis by auto
  next
    case (Some a)
    then show ?thesis by (rule matchDec_digit)
  qed
qed

lemma totalMinutesOf_bare:
  assumes "firstDecUnit (isLetter CHR ''h'' CHR ''H'') s = None"
    and "firstDecUnit (isLetter CHR ''m'' CHR ''M'') s = None"
    and "firstDecUnit (isLetter CHR ''d'' CHR ''D'') s = None"
    and "firstDec s = Some num"
  shows "totalMinutesOf s = parseFloat num"
  using assms by (simp add: totalMinutesOf_def dzero_def)

lemma parseTimeToMinutes_Some: "parseTimeToMinutes ts = Some r \<Longrightarrow> 0 < r"
  by (auto simp: parseTimeToMinutes_def split: option.splits if_splits)

lemma parseFloat_zero: "parseFloat (''0'', []) = (0, 57)"
  by (simp add: parseFloat_def parseDigits_def digitVal_def double_defs)

lemma parseFloat_45: "parseFloat (''45'', []) = (45 * 2 ^ 57, 57)"
  by (simp add: parseFloat_def parseDigits_def digitVal_def double_defs)

lemmas scan_defs =
  matchDecUnit_def matchDec_def fractionAt_def unitFollows_def isLetter_def isDigit_def
  isSpace_def Let_def

lemma parseTimeToMinutes_zero_minutes: "parseTimeToMinutes (Some ''0 minutes'') = None"
proof -
  have "totalMinutesOf ''0 minutes'' = (0, 57)"
    by (simp add: totalMinutesOf_def scan_defs parseFloat_zero dzero_def dadd_def roundTo53_def
        bitLength_0)
  then show ?thesis
    by (simp add: parseTimeToMinutes_def dval_def)
qed

text \<open>
  C10. \<open>parseTimeToMinutes\<close> never returns 0: whatever it returns is strictly positive,
  and it returns \<open>null\<close> for \<open>null\<close>/\<open>undefined\<close>, for \<open>"Unknown"\<close>, for \<open>"0 minutes"\<close> and
  whenever the computed total is not strictly positive. When none of the hour, minute
  and day patterns matches and the text contains a number, the total is that number,
  read as minutes.
\<close>

theorem parseTimeToMinutes_never_zero:
  "parseTimeToMinutes ts \<noteq> Some 0 \<and>
   (\<forall>r. parseTimeToMinutes ts = Some r \<longrightarrow> 0 < r) \<and>
   parseTimeToMinutes None = None \<and>
   parseTimeToMinutes (Some ''Unknown'') = None \<and>
   parseTimeToMinutes (Some ''0 minutes'') = None \<and>
   (\<not> 0 < dval (totalMinutesOf s) \<longrightarrow> parseTimeToMinutes (Some s) = None) \<and>
   (firstDecUnit (isLetter CHR ''h'' CHR ''H'') s = None \<and>
    firstDecUnit (isLetter CHR ''m'' CHR ''M'') s = None \<and>
    firstDecUnit (isLetter CHR ''d'' CHR ''D'') s = None \<and>
    firstDec s = Some num \<longrightarrow>
      totalMinutesOf s = parseFloat num \<and>
      parseTimeToMinutes (Some s) =
        (if 0 < dval (parseFloat num) then Some (dval (parseFloat num)) else None))"
proof -
  have pos: "\<forall>r. parseTimeToMinutes ts = Some r \<longrightarrow> 0 < r"
    using parseTimeToMinutes_Some by blast
  then have nz: "parseTimeToMinutes ts \<noteq> Some 0"
    by auto
  have fixed: "parseTimeToMinutes None = None" "parseTimeToMinutes (Some ''Unknown'') = None"
    by (simp_all add: parseTimeToMinutes_def)
  have nonpos: "\<not> 0 < dval (totalMinutesOf s) \<longrightarrow> parseTimeToMinutes (Some s) = None"
    by (simp add: parseTimeToMinutes_def)
  have bare: "totalMinutesOf s = parseFloat num \<and>
      parseTimeToMinutes (Some s) =
        (if 0 < dval (parseFloat num) then Some (dval (parseFloat num)) else None)"
    if h: "firstDecUnit (isLetter CHR ''h'' CHR ''H'') s = None"
      and m: "firstDecUnit (isLetter CHR ''m'' CHR ''M'') s = None"
      and d: "firstDecUnit (isLetter CHR ''d'' CHR ''D'') s = None"
      and n: "firstDec s = Some num"
  proof -
    have t: "totalMinutesOf s = parseFloat num"
      using h m d n by (rule totalMinutesOf_bare)
    obtain c where c: "c \<in> set s" "isDigit c"
      using firstDec_digit [OF n] by blast
    then have "s \<noteq> []" by auto
    moreover have "s \<noteq> ''Unknown''"
      using c by (auto simp: isDigit_def)
    ultimately show ?thesis
      by (simp add: parseTimeToMinutes_def t)
  qed
  show ?thesis
    using pos nz fixed nonpos bare parseTimeToMinutes_zero_minutes by blast
qed

theorem parseTimeToMinutes_never_zero_witness:
  "parseTimeToMinutes (Some ''45'') = Some 45 \<and> parseTimeToMinutes (Some ''45'') \<noteq> Some 0"
proof -
  have h: "firstDecUnit (isLetter CHR ''h'' CHR ''H'') ''45'' = None"
    and m: "firstDecUnit (isLetter CHR ''m'' CHR ''M'') ''45'' = None"
    and d: "firstDecUnit (isLetter CHR ''d'' CHR ''D'') ''45'' = None"
    and n: "firstDec ''45'' = Some (''45'', [])"
    by (simp_all add: scan_defs)
  have v: "dval (parseFloat (''45'', [])) = 45"
    by (simp add: parseFloat_45 dval_def)
  show ?thesis
    using parseTimeToMinutes_never_zero [of "Some ''45''" "''45''" "(''45'', [])"] h m d n v
    by simp
qed
section \<open>Properties of extractWorkflowMetrics\<close>

subsection \<open>The worked example\<close>

lemmas char_defs = isDigit_def isSpace_def lowerAscii_def lowerChar_def char_of_eq_iff
lemmas match_defs = matchTime_def matchStep_def matchLabel_def matchBox_def firstAlt_def
  startsWithCI_def timeUnits_def Let_def

lemma ex_times: "scanAll matchTime reviewApproveDiagram = [''30 min'', ''1 hour'']"
  by (simp add: reviewApproveDiagram_def match_defs char_defs)

lemma ex_steps: "scanAll matchStep reviewApproveDiagram = [(), ()]"
  by (simp add: reviewApproveDiagram_def match_defs char_defs)

lemma ex_total:
  "foldl addTime (0, False) (map trim (scanAll matchTime reviewApproveDiagram)) = (90, True)"
  by (simp add: ex_times addTime_def trim_def firstDigits_def regexTest_def startsWith_def
      parseDigits_def digitVal_def char_defs)

lemma showNat_digit: "n < 10 \<Longrightarrow> showNat n = [digitChar n]"
  by (simp add: showNat.simps)

lemma showNat_more: "10 \<le> n \<Longrightarrow> showNat n = showNat (n div 10) @ [digitChar (n mod 10)]"
  by (subst showNat.simps) simp

lemma ex_format: "formatTotalTime 90 = ''1 hour 30 minutes''"
  by (simp add: formatTotalTime_def plural_def showNat_digit showNat_more digitChar_def char_of_eq_iff)

text \<open>
  C4. On the diagram \<open>graph TD\<close>, newline,
  \<open>A[Step 1: Review (30 min)] --> B[Step 2: Approve (1 hour)]\<close> the extractor returns
  \<open>totalSteps = 2\<close> and \<open>totalTime = "1 hour 30 minutes"\<close>.
\<close>

theorem extractWorkflowMetrics_example:
  "wTotalSteps (extractWorkflowMetrics (Some reviewApproveDiagram)) = 2 \<and>
   wTotalTime (extractWorkflowMetrics (Some reviewApproveDiagram)) = ''1 hour 30 minutes''"
proof -
  have ne: "reviewApproveDiagram \<noteq> []"
    by (simp add: reviewApproveDiagram_def)
  show ?thesis
    by (simp add: extractWorkflowMetrics_def ne countSteps_def ex_steps ex_total ex_format Let_def)
qed

subsection \<open>The duration aggregation\<close>




















section \<open>Properties of combineDocumentData\<close>

lemma fill_row:
  "distinct (map fst r) \<Longrightarrow>
   foldl (\<lambda>acc kv. if fst kv \<in> set [''A'', ''B'', ''C''] then setProp (fst kv) (snd kv) acc else acc)
     [(''A'', a), (''B'', b), (''C'', c)] r
   = [(''A'', cell r ''A'' a), (''B'', cell r ''B'' b), (''C'', cell r ''C'' c)]"
proof (induction r arbitrary: a b c)
  case Nil
  then show ?case by (simp add: cell_def getProp_def)
next
  case (Cons kv r)
  obtain k v where kv: "kv = (k, v)" by (cases kv)
  from Cons.prems kv have d: "distinct (map fst r)" and nk: "map_of r k = None"
    by (auto simp: map_of_eq_None_iff)
  show ?case
    using Cons.IH [OF d] nk kv
    by (auto simp: cell_def getProp_def)
qed

lemma standardizedRow_ABC:
  "distinct (map fst r) \<Longrightarrow> standardizedRow [''A'', ''B'', ''C''] f r = combinedRow f r"
  using fill_row [of r "[]" "[]" "[]"]
  by (simp add: standardizedRow_def combinedRow_def Let_def)

lemma map_standardizedRow_ABC:
  "\<forall>r\<in>set rs. distinct (map fst r) \<Longrightarrow>
     map (standardizedRow [''A'', ''B'', ''C''] f) rs = map (combinedRow f) rs"
  by (simp add: standardizedRow_ABC)

text \<open>
  C7. Two parsed CSV records with the headers A, B and B, C (rows are objects: their keys
  are distinct) combine into a parsed CSV record with the headers A, B, C, Source File;
  every row of either source gives one row with a cell for each of the four headers:
  the source row's cell, the empty string where the source row has none, and the name
  of the source file under Source File.
\<close>

theorem combineDocumentData_csv_union:
  assumes "\<forall>r\<in>set (rs1 @ rs2). distinct (map fst r)"
  shows "combineDocumentData stringify
           [Processed f1 (csvRecord [''A'', ''B''] rs1), Processed f2 (csvRecord [''B'', ''C''] rs2)]
         = (dataOf (Rows (map (combinedRow f1) rs1 @ map (combinedRow f2) rs2)) Csv True)
             \<lparr>headers := Some [''A'', ''B'', ''C'', ''Source File''],
              fileNames := Some [f1, f2]\<rparr>"
proof -
  from assms have 1: "map (standardizedRow [''A'', ''B'', ''C''] f1) rs1 = map (combinedRow f1) rs1"
    and 2: "map (standardizedRow [''A'', ''B'', ''C''] f2) rs2 = map (combinedRow f2) rs2"
    by (simp_all add: map_standardizedRow_ABC)
  show ?thesis
    by (simp add: combineDocumentData_def csvRecord_def setFrom_def setAdd_def
        mergeTabular_def contentRows_def dataOf_def 1 2 Let_def)
qed

theorem combineDocumentData_csv_union_witness:
  "combineDocumentData (\<lambda>rs. [])
     [Processed ''one.csv'' (csvRecord [''A'', ''B''] rowsOne),
      Processed ''two.csv'' (csvRecord [''B'', ''C''] rowsTwo)]
   = (dataOf (Rows
         [[(''A'', ''1''), (''B'', ''2''), (''C'', []), (''Source File'', ''one.csv'')],
          [(''A'', []), (''B'', ''3''), (''C'', ''4''), (''Source File'', ''two.csv'')],
          [(''A'', []), (''B'', ''5''), (''C'', []), (''Source File'', ''two.csv'')]]) Csv True)
       \<lparr>headers := Some [''A'', ''B'', ''C'', ''Source File''],
        fileNames := Some [''one.csv'', ''two.csv'']\<rparr>"
  using combineDocumentData_csv_union [of rowsOne rowsTwo "\<lambda>rs. []" "''one.csv''" "''two.csv''"]
  by (simp add: rowsOne_def rowsTwo_def combinedRow_def cell_def getProp_def)
section \<open>Properties of the fallback\<close>

lemma generateFormattedDocument_both_fail:
  "call 0 \<lparr>maxTokens = 3000, temperature = ''0.2'', system = formattingSystem,
            prompt = createPrompt d\<rparr> = Inl e1 \<Longrightarrow>
   call 1 \<lparr>maxTokens = 4000, temperature = ''0.2'', system = formattingSystem,
            prompt = createPrompt d\<rparr> = Inl e2 \<Longrightarrow>
   generateFormattedDocument call createPrompt d = (Inl e1, 2)"
  by (simp add: generateFormattedDocument_def)

lemma generateFormattedDocument_calls:
  "snd (generateFormattedDocument call createPrompt d) \<le> 2"
  by (simp add: generateFormattedDocument_def split: sum.splits)

lemma handler_calls: "snd (handler call createPrompt finish req) \<le> 2"
  by (simp add: handler_def Let_def split: sum.splits option.splits)

text \<open>
  C9. When both provider calls fail, the document formatter makes two calls and throws
  the first error, as claimed; the optimization handler makes two calls as well, but
  answers with the message of the second error.
\<close>

theorem handler_surfaces_fallback_error:
  "generateFormattedDocument failingTwice createPrompt d = (Inl ''rate limited'', 2) \<and>
   handler failingTwice createPrompt' finish optimizePost = (ServerError ''overloaded'', 2)"
  by (simp add: generateFormattedDocument_def handler_def failingTwice_def optimizePost_def)
section \<open>Properties of parseDocument\<close>

lemma splitChar_not_Nil: "splitChar sep s \<noteq> []"
  by (induction s) (auto split: list.splits)

lemma splitCRLF_not_Nil: "splitCRLF s \<noteq> []"
  by (induction s rule: splitCRLF.induct) (auto split: list.splits)

lemma csv_lines:
  "\<exists>firstLine rest.
     (if strIncludes [CR, LF] s then splitCRLF s else splitChar LF s) = firstLine # rest"
  using splitChar_not_Nil [of LF s] splitCRLF_not_Nil [of s]
  by (cases "splitChar LF s"; cases "splitCRLF s") auto

lemma parseCsvText_parsed: "parsed (parseCsvText s) = True"
proof -
  obtain firstLine rest
    where "(if strIncludes [CR, LF] s then splitCRLF s else splitChar LF s) = firstLine # rest"
    using csv_lines by blast
  then show ?thesis
    by (simp add: parseCsvText_def dataOf_def Let_def)
qed

lemma parseCsvText_no_error: "error (parseCsvText s) = None"
proof -
  obtain firstLine rest
    where "(if strIncludes [CR, LF] s then splitCRLF s else splitChar LF s) = firstLine # rest"
    using csv_lines by blast
  then show ?thesis
    by (simp add: parseCsvText_def dataOf_def Let_def)
qed

lemma parseTextContent_parsed: "parsed (parseTextContent decode c) = True"
  by (simp add: parseTextContent_def dataOf_def Let_def)

lemma dispatch_returns: "\<exists>r. dispatch libs helpers c m f = Inr r"
  by (simp add: dispatch_def)

lemma parseDocument_pdf:
  "mimeHas m ''pdf'' \<Longrightarrow>
     parseDocument libs helpers c m f = parsePdfContent libs helpers c f"
  by (simp add: parseDocument_def dispatch_def)

lemma parseDocument_docx:
  "\<not> mimeHas m ''pdf'' \<Longrightarrow>
   mimeHas m ''msword'' \<or> mimeHas m ''officedocument.wordprocessingml.document'' \<Longrightarrow>
     parseDocument libs helpers c m f = parseDocxContent libs c"
  by (simp add: parseDocument_def dispatch_def)

lemma parseDocument_csv:
  "\<not> mimeHas m ''pdf'' \<Longrightarrow> \<not> mimeHas m ''msword'' \<Longrightarrow>
   \<not> mimeHas m ''officedocument.wordprocessingml.document'' \<Longrightarrow> mimeHas m ''csv'' \<Longrightarrow>
     parseDocument libs helpers c m f = parseCsvContent c"
  by (simp add: parseDocument_def dispatch_def)

lemma parseDocument_excel:
  "\<not> mimeHas m ''pdf'' \<Longrightarrow> \<not> mimeHas m ''msword'' \<Longrightarrow>
   \<not> mimeHas m ''officedocument.wordprocessingml.document'' \<Longrightarrow> \<not> mimeHas m ''csv'' \<Longrightarrow>
   mimeHas m ''excel'' \<or> mimeHas m ''spreadsheetml.sheet'' \<Longrightarrow>
     parseDocument libs helpers c m f = parseExcelContent libs c"
  by (simp add: parseDocument_def dispatch_def)

lemma parseDocument_text:
  "\<not> mimeHas m ''pdf'' \<Longrightarrow> \<not> mimeHas m ''msword'' \<Longrightarrow>
   \<not> mimeHas m ''officedocument.wordprocessingml.document'' \<Longrightarrow> \<not> mimeHas m ''csv'' \<Longrightarrow>
   \<not> mimeHas m ''excel'' \<Longrightarrow> \<not> mimeHas m ''spreadsheetml.sheet'' \<Longrightarrow>
     parseDocument libs helpers c m f = parseTextContent (utf8Decode libs) c"
  by (simp add: parseDocument_def dispatch_def)

lemmas mime_simps = mimeHas_def startsWith_def

lemma mime_pdf: "mimeHas (Some ''application/pdf'') ''pdf''"
  by (simp add: mime_simps)

lemma mime_docx:
  "\<not> mimeHas (Some ''application/vnd.openxmlformats-officedocument.wordprocessingml.document'') ''pdf''"
  "mimeHas (Some ''application/vnd.openxmlformats-officedocument.wordprocessingml.document'')
     ''officedocument.wordprocessingml.document''"
  by (simp_all add: mime_simps)

lemma mime_csv:
  "\<not> mimeHas (Some ''text/csv'') ''pdf''"
  "\<not> mimeHas (Some ''text/csv'') ''msword''"
  "\<not> mimeHas (Some ''text/csv'') ''officedocument.wordprocessingml.document''"
  "mimeHas (Some ''text/csv'') ''csv''"
  by (simp_all add: mime_simps)

lemma mime_excel:
  "\<not> mimeHas (Some ''application/vnd.ms-excel'') ''pdf''"
  "\<not> mimeHas (Some ''application/vnd.ms-excel'') ''msword''"
  "\<not> mimeHas (Some ''application/vnd.ms-excel'') ''officedocument.wordprocessingml.document''"
  "\<not> mimeHas (Some ''application/vnd.ms-excel'') ''csv''"
  "mimeHas (Some ''application/vnd.ms-excel'') ''excel''"
  by (simp_all add: mime_simps)

lemma mime_text:
  "\<not> mimeHas (Some ''text/plain'') ''pdf''"
  "\<not> mimeHas (Some ''text/plain'') ''msword''"
  "\<not> mimeHas (Some ''text/plain'') ''officedocument.wordprocessingml.document''"
  "\<not> mimeHas (Some ''text/plain'') ''csv''"
  "\<not> mimeHas (Some ''text/plain'') ''excel''"
  "\<not> mimeHas (Some ''text/plain'') ''spreadsheetml.sheet''"
  by (simp_all add: mime_simps)

text \<open>
  C3 (as amended). \<open>parseDocument\<close> never raises: its \<open>try\<close> block always returns a record.
  For a PDF (by MIME type) whose extraction throws in both attempts the record has
  \<open>parsed = false\<close> and \<open>error\<close> is the message of the first error; for a Word document
  whose extraction throws, and for a spreadsheet whose reading throws, the record has
  \<open>parsed = false\<close> and \<open>error\<close> is the message of the error. A workbook whose first
  sheet has no row gives \<open>parsed = false\<close> without an \<open>error\<close> property. A CSV text and a
  plain text always give \<open>parsed = true\<close>.
\<close>

theorem parseDocument_failures_captured:
  "(\<exists>r. dispatch libs helpers c m f = Inr r) \<and>
   (pdfParseRendered libs c = Inl e1 \<and> pdfParsePlain libs c = Inl e2 \<longrightarrow>
      parsed (parseDocument libs helpers c (Some ''application/pdf'') f) = False \<and>
      error (parseDocument libs helpers c (Some ''application/pdf'') f) = Some e1) \<and>
   (mammothExtract libs c = Inl e1 \<longrightarrow>
      parsed (parseDocument libs helpers c
        (Some ''application/vnd.openxmlformats-officedocument.wordprocessingml.document'') f) = False \<and>
      error (parseDocument libs helpers c
        (Some ''application/vnd.openxmlformats-officedocument.wordprocessingml.document'') f) = Some e1) \<and>
   (xlsxRead libs c = Inl e1 \<longrightarrow>
      parsed (parseDocument libs helpers c (Some ''application/vnd.ms-excel'') f) = False \<and>
      error (parseDocument libs helpers c (Some ''application/vnd.ms-excel'') f) = Some e1) \<and>
   (xlsxRead libs c = Inr sheet \<and> headerRow sheet = None \<longrightarrow>
      parsed (parseDocument libs helpers c (Some ''application/vnd.ms-excel'') f) = False \<and>
      error (parseDocument libs helpers c (Some ''application/vnd.ms-excel'') f) = None) \<and>
   parsed (parseDocument libs helpers (Str s) (Some ''text/csv'') f) = True \<and>
   parsed (parseDocument libs helpers c (Some ''text/plain'') f) = True"
proof -
  have pdf: "parseDocument libs helpers c (Some ''application/pdf'') f
      = parsePdfContent libs helpers c f"
    using mime_pdf by (rule parseDocument_pdf)
  have docx: "parseDocument libs helpers c
      (Some ''application/vnd.openxmlformats-officedocument.wordprocessingml.document'') f
      = parseDocxContent libs c"
    using mime_docx by (simp add: parseDocument_docx)
  have csv: "parseDocument libs helpers (Str s) (Some ''text/csv'') f = parseCsvContent (Str s)"
    using mime_csv by (simp add: parseDocument_csv)
  have excel: "parseDocument libs helpers c (Some ''application/vnd.ms-excel'') f
      = parseExcelContent libs c"
    using mime_excel by (simp add: parseDocument_excel)
  have plain: "parseDocument libs helpers c (Some ''text/plain'') f
      = parseTextContent (utf8Decode libs) c"
    using mime_text by (simp add: parseDocument_text)
  show ?thesis
    unfolding pdf docx csv excel plain
    by (simp add: dispatch_returns parsePdfContent_def parseDocxContent_def
        parseExcelContent_def parseCsvContent_def parseCsvText_parsed parseTextContent_parsed
        dataOf_def)
qed

theorem parseDocument_failures_captured_witness:
  "parsed (parseDocument brokenLibraries plainHelpers (Bytes ''%PDF-garbage'')
     (Some ''application/pdf'') ''a.pdf'') = False \<and>
   error (parseDocument brokenLibraries plainHelpers (Bytes ''%PDF-garbage'')
     (Some ''application/pdf'') ''a.pdf'') = Some ''Invalid PDF structure'' \<and>
   error (parseDocument brokenLibraries plainHelpers (Bytes ''%PDF-garbage'')
     (Some ''application/vnd.openxmlformats-officedocument.wordprocessingml.document'') ''a.pdf'')
     = Some ''Could not find file in options'' \<and>
   error (parseDocument brokenLibraries plainHelpers (Bytes ''%PDF-garbage'')
     (Some ''application/vnd.ms-excel'') ''a.pdf'') = Some ''Unsupported file''"
  using parseDocument_failures_captured
    [of brokenLibraries plainHelpers "Bytes ''%PDF-garbage''" "None" "''a.pdf''"
        "''Invalid PDF structure''" "''bad XRef entry''"]
    parseDocument_failures_captured
    [of brokenLibraries plainHelpers "Bytes ''%PDF-garbage''" "None" "''a.pdf''"
        "''Could not find file in options''"]
    parseDocument_failures_captured
    [of brokenLibraries plainHelpers "Bytes ''%PDF-garbage''" "None" "''a.pdf''"
        "''Unsupported file''"]
  by (simp add: brokenLibraries_def)

text \<open>
  C3 (as stated) fails: a CSV text with a quote that is never closed is reported as
  parsed, with no error; bytes that cannot be decoded, sent as plain text, are reported
  as parsed; and a workbook whose first sheet is empty is reported as not parsed, but
  without an error.
\<close>

theorem parseDocument_malformed_counterexample:
  "parsed (parseDocument brokenLibraries plainHelpers (Str unbalancedCsv) (Some ''text/csv'')
     ''bad.csv'') = True \<and>
   error (parseDocument brokenLibraries plainHelpers (Str unbalancedCsv) (Some ''text/csv'')
     ''bad.csv'') = None \<and>
   parsed (parseDocument brokenLibraries plainHelpers (Bytes ''garbage'') (Some ''text/plain'')
     ''bad.txt'') = True \<and>
   parsed (parseDocument emptySheetLibraries plainHelpers (Bytes ''garbage'')
     (Some ''application/vnd.ms-excel'') ''empty.xls'') = False \<and>
   error (parseDocument emptySheetLibraries plainHelpers (Bytes ''garbage'')
     (Some ''application/vnd.ms-excel'') ''empty.xls'') = None"
proof -
  have csv: "parseDocument brokenLibraries plainHelpers (Str unbalancedCsv) (Some ''text/csv'')
      ''bad.csv'' = parseCsvContent (Str unbalancedCsv)"
    using mime_csv by (simp add: parseDocument_csv)
  have excel: "parseDocument emptySheetLibraries plainHelpers (Bytes ''garbage'')
      (Some ''application/vnd.ms-excel'') ''empty.xls''
      = parseExcelContent emptySheetLibraries (Bytes ''garbage'')"
    using mime_excel by (simp add: parseDocument_excel)
  have plain: "parseDocument brokenLibraries plainHelpers (Bytes ''garbage'') (Some ''text/plain'')
      ''bad.txt'' = parseTextContent (utf8Decode brokenLibraries) (Bytes ''garbage'')"
    using mime_text by (simp add: parseDocument_text)
  show ?thesis
    unfolding csv excel plain
    by (simp add: parseCsvContent_def parseCsvText_parsed parseCsvText_no_error
        parseTextContent_parsed parseExcelContent_def emptySheetLibraries_def
        brokenLibraries_def dataOf_def)
qed
section \<open>Properties of parseOptimizationResult\<close>

lemmas json_eval =
  jsonParse_def skipWs_def jsonWs_def startsWith_def jsonNumber_def integerPart_def
  fractionPart_def exponentPart_def isDigit_def consUnit_def escapeUnit_def Let_def

lemmas fence_eval =
  fencedJson_def fencedBlock_def fence_def startsWith_def trim_def isSpace_def LF_def

lemma tryTiers_string: "\<exists>v. tryTiers pr (Some text) = Inr v"
  by (simp add: tryTiers_def split: option.splits)

lemma parse_null: "jsonParse ''null'' = Some JNull"
  by (simp add: json_eval)

lemma parse_42: "jsonParse ''42'' = Some (JNumber ''42'')"
  by (simp add: json_eval)

lemma parse_empty_object: "jsonParse ''{}'' = Some (JObject [])"
  by (simp add: json_eval)

lemma parse_gibberish: "jsonParse ''gibberish'' = None"
  by (simp add: json_eval)

lemma fenced_null: "fencedJson fencedNull = Some JNull"
  by (simp add: fencedNull_def fence_eval json_eval)

lemma fenced_object:
  "fencedJson fencedObject = Some (JObject [(map of_char ''totalSteps'', JNumber ''3'')])"
  by (simp add: fencedObject_def fence_eval json_eval)

lemma no_fence: "fencedJson ''null'' = None" "fencedJson ''42'' = None" "fencedJson ''{}'' = None"
  "fencedJson ''gibberish'' = None"
  by (simp_all add: fence_eval)

text \<open>
  C2 (as amended). \<open>parseOptimizationResult\<close> never throws: on a string the \<open>try\<close> block
  returns, and on a missing argument the \<open>catch\<close> clause returns the fixed default
  object (a generic summary, two canned suggestions, no steps or time, empty step
  times). On a string the result is the first of: the JSON value of the first fenced
  block, trimmed and with trailing commas removed; the JSON value of the whole trimmed
  text; the object recovered field by field, in which a field is absent when its probe
  finds nothing and the suggestions are one generic suggestion when their text does not
  parse. The first two tiers return whatever JSON value the payload denotes.
\<close>

theorem parseOptimizationResult_tiers:
  "(\<exists>v. tryTiers pr (Some text) = Inr v) \<and>
   parseOptimizationResult pr None = Built defaultOptimizationResult \<and>
   (fencedJson text = Some v \<longrightarrow> parseOptimizationResult pr (Some text) = Json v) \<and>
   (fencedJson text = None \<and> jsonParse (trim text) = Some v \<longrightarrow>
      parseOptimizationResult pr (Some text) = Json v) \<and>
   (fencedJson text = None \<and> jsonParse (trim text) = None \<longrightarrow>
      parseOptimizationResult pr (Some text) = Built (fieldRecovery pr text) \<and>
      rSummary (fieldRecovery pr text) = summaryProbe pr text \<and>
      rTotalSteps (fieldRecovery pr text) = totalStepsProbe pr text \<and>
      rTotalTime (fieldRecovery pr text) = totalTimeProbe pr text \<and>
      rWorkflow (fieldRecovery pr text) = workflowProbe pr text \<and>
      rSuggestions (fieldRecovery pr text) =
        (case suggestionsProbe pr text of
           None \<Rightarrow> None
         | Some c \<Rightarrow> (case jsonParse c of
                        Some j \<Rightarrow> Some (Parsed j)
                      | None \<Rightarrow> Some (Written [fallbackSuggestion])))) \<and>
   map_option (\<lambda>s. case s of Written l \<Rightarrow> length l | Parsed j \<Rightarrow> 0)
     (rSuggestions defaultOptimizationResult) = Some 2 \<and>
   rStepTimes defaultOptimizationResult = Some [] \<and>
   rTotalSteps defaultOptimizationResult = None \<and>
   rTotalTime defaultOptimizationResult = None"
proof -
  have returns: "\<exists>v. tryTiers pr (Some text) = Inr v"
    by (rule tryTiers_string)
  have tiers: "parseOptimizationResult pr None = Built defaultOptimizationResult"
    "fencedJson text = Some v \<longrightarrow> parseOptimizationResult pr (Some text) = Json v"
    "fencedJson text = None \<and> jsonParse (trim text) = Some v \<longrightarrow>
      parseOptimizationResult pr (Some text) = Json v"
    "fencedJson text = None \<and> jsonParse (trim text) = None \<longrightarrow>
      parseOptimizationResult pr (Some text) = Built (fieldRecovery pr text)"
    by (simp_all add: parseOptimizationResult_def tryTiers_def)
  have fields: "rSummary (fieldRecovery pr text) = summaryProbe pr text"
    "rTotalSteps (fieldRecovery pr text) = totalStepsProbe pr text"
    "rTotalTime (fieldRecovery pr text) = totalTimeProbe pr text"
    "rWorkflow (fieldRecovery pr text) = workflowProbe pr text"
    "rSuggestions (fieldRecovery pr text) =
        (case suggestionsProbe pr text of
           None \<Rightarrow> None
         | Some c \<Rightarrow> (case jsonParse c of
                        Some j \<Rightarrow> Some (Parsed j)
                      | None \<Rightarrow> Some (Written [fallbackSuggestion])))"
    by (simp_all add: fieldRecovery_def)
  have dflt: "map_option (\<lambda>s. case s of Written l \<Rightarrow> length l | Parsed j \<Rightarrow> 0)
       (rSuggestions defaultOptimizationResult) = Some 2"
    "rStepTimes defaultOptimizationResult = Some []"
    "rTotalSteps defaultOptimizationResult = None"
    "rTotalTime defaultOptimizationResult = None"
    by (simp_all add: defaultOptimizationResult_def)
  show ?thesis
    using returns tiers fields dflt by blast
qed

theorem parseOptimizationResult_tiers_witness:
  "parseOptimizationResult silentProbes (Some fencedObject)
     = Json (JObject [(map of_char ''totalSteps'', JNumber ''3'')]) \<and>
   parseOptimizationResult silentProbes (Some ''{}'') = Json (JObject []) \<and>
   parseOptimizationResult silentProbes (Some ''gibberish'')
     = Built (fieldRecovery silentProbes ''gibberish'')"
proof -
  have t: "trim ''{}'' = ''{}''" "trim ''gibberish'' = ''gibberish''"
    by (simp_all add: trim_def isSpace_def)
  show ?thesis
    using parseOptimizationResult_tiers
        [of silentProbes fencedObject "JObject [(map of_char ''totalSteps'', JNumber ''3'')]"]
      parseOptimizationResult_tiers [of silentProbes "''{}''" "JObject []"]
      parseOptimizationResult_tiers [of silentProbes "''gibberish''"]
    by (simp add: fenced_object no_fence parse_empty_object parse_gibberish t)
qed

text \<open>
  C2 (as stated) fails: not every input yields an object. On the text \<open>null\<close> the second
  tier returns \<open>null\<close>, on \<open>42\<close> the number 42, and on a text whose fenced block holds
  \<open>null\<close> the first tier returns \<open>null\<close>.
\<close>

theorem parseOptimizationResult_not_object_counterexample:
  "parseOptimizationResult silentProbes (Some ''null'') = Json JNull \<and>
   \<not> isObject (parseOptimizationResult silentProbes (Some ''null'')) \<and>
   parseOptimizationResult silentProbes (Some ''42'') = Json (JNumber ''42'') \<and>
   \<not> isObject (parseOptimizationResult silentProbes (Some ''42'')) \<and>
   parseOptimizationResult silentProbes (Some fencedNull) = Json JNull \<and>
   \<not> isObject (parseOptimizationResult silentProbes (Some fencedNull))"
proof -
  have t: "trim ''null'' = ''null''" "trim ''42'' = ''42''"
    by (simp_all add: trim_def isSpace_def)
  show ?thesis
    by (simp add: parseOptimizationResult_def tryTiers_def no_fence fenced_null parse_null
        parse_42 t)
qed

end
